theory Spec2Isabelle
  imports Main "HOL-Library.Word" "HOL-Library.Char_ord" "HOL-Library.List_Lexorder"
begin

section \<open>Values shared by the three Lambda functions\<close>

text \<open>
  The values \<open>json.loads\<close> produces and \<open>json.dumps\<close> consumes. A Python \<open>dict\<close> is
  an association list in insertion order (each key once, as \<open>json.loads\<close> leaves it);
  a Python \<open>float\<close> is kept as its 64 bits. A Python \<open>str\<close> is a \<open>string\<close>.
\<close>

datatype json =
    JNull
  | JBool bool
  | JInt int
  | JFloat "64 word"
  | JString string
  | JArray "json list"
  | JObject "(string \<times> json) list"

text \<open>
  The exceptions the code can meet. \<open>KeyError\<close> carries the missing key;
  \<open>OtherError\<close> stands for what the external clients and libraries raise besides
  (botocore, requests, anthropic, zoneinfo, codecs).
\<close>

datatype exn =
    KeyError string
  | TypeError
  | ValueError string
  | JSONDecodeError
  | AssertionError
  | IndexError
  | AttributeError
  | OtherError string

text \<open>\<open>value[key]\<close> with a \<open>str\<close> key: only a dict can be subscripted by a string.\<close>

fun getitem :: "json \<Rightarrow> string \<Rightarrow> exn + json" where
  "getitem (JObject kvs) k = (case map_of kvs k of None \<Rightarrow> Inl (KeyError k) | Some v \<Rightarrow> Inr v)"
| "getitem v k = Inl TypeError"

text \<open>
  \<open>for x in value\<close>: a list yields its elements, a dict its keys, a string its
  characters; nothing else is iterable.
\<close>

fun iterate :: "json \<Rightarrow> exn + json list" where
  "iterate (JArray xs) = Inr xs"
| "iterate (JObject kvs) = Inr (map (\<lambda>kv. JString (fst kv)) kvs)"
| "iterate (JString s) = Inr (map (\<lambda>c. JString [c]) s)"
| "iterate v = Inl TypeError"

text \<open>A list comprehension \<open>[f(x) for x in xs]\<close>: the first exception ends it.\<close>

fun comprehension :: "('a \<Rightarrow> exn + 'b) \<Rightarrow> 'a list \<Rightarrow> exn + 'b list" where
  "comprehension f [] = Inr []"
| "comprehension f (x # xs) =
     (case f x of
        Inl e \<Rightarrow> Inl e
      | Inr y \<Rightarrow> (case comprehension f xs of Inl e \<Rightarrow> Inl e | Inr ys \<Rightarrow> Inr (y # ys)))"

section \<open>Dates and times\<close>

text \<open>
  Python's \<open>str(n)\<close> for a natural number, and \<open>"%0wd" % n\<close>: at least \<open>w\<close> digits.
\<close>

definition digit_char :: "nat \<Rightarrow> char" where
  "digit_char n = ''0123456789'' ! n"

fun str_nat :: "nat \<Rightarrow> string" where
  "str_nat n = (if n < 10 then [digit_char n] else str_nat (n div 10) @ [digit_char (n mod 10)])"

declare str_nat.simps [simp del]

definition zero_pad :: "nat \<Rightarrow> nat \<Rightarrow> string" where
  "zero_pad w n = replicate (w - length (str_nat n)) CHR ''0'' @ str_nat n"

text \<open>
  A \<open>datetime\<close>: the wall-clock fields, the attached \<open>tzinfo\<close> and \<open>fold\<close>. The
  \<open>tzinfo\<close> is absent (a naive value), a \<open>datetime.timezone\<close> of a fixed offset (in
  microseconds, the resolution of \<open>timedelta\<close>), or a \<open>ZoneInfo\<close> of an IANA key.
\<close>

datatype tzinfo = NoTz | Timezone int | ZoneInfo string

record datetime =
  year :: nat
  month :: nat
  day :: nat
  hour :: nat
  minute :: nat
  second :: nat
  microsecond :: nat
  tzinfo :: tzinfo
  fold :: nat

definition is_leap :: "nat \<Rightarrow> bool" where
  "is_leap y = (y mod 4 = 0 \<and> (y mod 100 \<noteq> 0 \<or> y mod 400 = 0))"

definition days_in_month :: "nat \<Rightarrow> nat \<Rightarrow> nat" where
  "days_in_month y m =
     (if m = 2 then (if is_leap y then 29 else 28)
      else if m = 4 \<or> m = 6 \<or> m = 9 \<or> m = 11 then 30 else 31)"

text \<open>The field ranges every \<open>datetime\<close> object satisfies (its constructor checks them).\<close>

definition valid_fields :: "datetime \<Rightarrow> bool" where
  "valid_fields d =
     (1 \<le> year d \<and> year d \<le> 9999 \<and> 1 \<le> month d \<and> month d \<le> 12 \<and>
      1 \<le> day d \<and> day d \<le> days_in_month (year d) (month d) \<and>
      hour d < 24 \<and> minute d < 60 \<and> second d < 60 \<and> microsecond d < 1000000)"

text \<open>
  \<open>d.utcoffset()\<close> in microseconds. \<open>tzdb\<close> is the time zone database:
  \<open>tzdb key d\<close> is \<open>ZoneInfo(key).utcoffset(d)\<close>.
\<close>

definition utcoffset :: "(string \<Rightarrow> datetime \<Rightarrow> int) \<Rightarrow> datetime \<Rightarrow> int option" where
  "utcoffset tzdb d =
     (case tzinfo d of
        NoTz \<Rightarrow> None
      | Timezone off \<Rightarrow> Some off
      | ZoneInfo key \<Rightarrow> Some (tzdb key d))"

text \<open>The offset suffix of \<open>isoformat\<close> (\<open>_format_offset\<close> of the datetime module).\<close>

definition format_offset :: "int option \<Rightarrow> string" where
  "format_offset off =
     (case off of
        None \<Rightarrow> []
      | Some t \<Rightarrow>
          (let hh = nat (\<bar>t\<bar> div 3600000000);
               mm = nat (\<bar>t\<bar> mod 3600000000 div 60000000);
               ss = nat (\<bar>t\<bar> mod 60000000 div 1000000);
               us = nat (\<bar>t\<bar> mod 1000000)
           in (if t < 0 then ''-'' else ''+'') @ zero_pad 2 hh @ '':'' @ zero_pad 2 mm @
              (if ss \<noteq> 0 \<or> us \<noteq> 0
               then '':'' @ zero_pad 2 ss @ (if us \<noteq> 0 then ''.'' @ zero_pad 6 us else [])
               else [])))"

text \<open>\<open>d.isoformat()\<close>.\<close>

definition isoformat :: "(string \<Rightarrow> datetime \<Rightarrow> int) \<Rightarrow> datetime \<Rightarrow> string" where
  "isoformat tzdb d =
     zero_pad 4 (year d) @ ''-'' @ zero_pad 2 (month d) @ ''-'' @ zero_pad 2 (day d) @ ''T'' @
     zero_pad 2 (hour d) @ '':'' @ zero_pad 2 (minute d) @ '':'' @ zero_pad 2 (second d) @
     (if microsecond d \<noteq> 0 then ''.'' @ zero_pad 6 (microsecond d) else []) @
     format_offset (utcoffset tzdb d)"

text \<open>Reading the text back: exactly \<open>w\<close> decimal digits, then a given character.\<close>

definition digit_of :: "char \<Rightarrow> nat option" where
  "digit_of c = (let n = (of_char c :: nat) in if 48 \<le> n \<and> n \<le> 57 then Some (n - 48) else None)"

fun digits_value :: "string \<Rightarrow> nat option" where
  "digits_value [] = Some 0"
| "digits_value (c # cs) =
     (case digit_of c of
        None \<Rightarrow> None
      | Some v \<Rightarrow> (case digits_value cs of None \<Rightarrow> None | Some r \<Rightarrow> Some (v * 10 ^ length cs + r)))"

definition take_digits :: "nat \<Rightarrow> string \<Rightarrow> (nat \<times> string) option" where
  "take_digits w s =
     (if length s < w then None
      else (case digits_value (take w s) of None \<Rightarrow> None | Some n \<Rightarrow> Some (n, drop w s)))"

fun expect :: "char \<Rightarrow> string \<Rightarrow> string option" where
  "expect c [] = None"
| "expect c (x # xs) = (if x = c then Some xs else None)"

text \<open>
  The offset suffix: nothing (a naive value), or a sign, \<open>HH:MM\<close>, and optionally
  \<open>:SS\<close> and \<open>.ffffff\<close>, each within its range. An offset of zero whole
  seconds is UTC whatever its fraction, as the library builds it.
\<close>

definition parse_offset :: "string \<Rightarrow> tzinfo option" where
  "parse_offset s =
     (case s of
        [] \<Rightarrow> Some NoTz
      | c # s1 \<Rightarrow>
          if c \<noteq> CHR ''+'' \<and> c \<noteq> CHR ''-'' then None
          else
            (case take_digits 2 s1 of None \<Rightarrow> None | Some (hh, s2) \<Rightarrow>
             (case expect CHR '':'' s2 of None \<Rightarrow> None | Some s3 \<Rightarrow>
              (case take_digits 2 s3 of None \<Rightarrow> None | Some (mm, s4) \<Rightarrow>
               (case (if s4 = [] then Some (0, 0)
                      else (case expect CHR '':'' s4 of None \<Rightarrow> None | Some s5 \<Rightarrow>
                            (case take_digits 2 s5 of None \<Rightarrow> None | Some (ss, s6) \<Rightarrow>
                             if s6 = [] then Some (ss, 0)
                             else (case expect CHR ''.'' s6 of None \<Rightarrow> None | Some s7 \<Rightarrow>
                                   (case take_digits 6 s7 of None \<Rightarrow> None | Some (us, s8) \<Rightarrow>
                                    if s8 = [] then Some (ss, us) else None))))) of
                  None \<Rightarrow> None
                | Some (ss, us) \<Rightarrow>
                    if hh < 24 \<and> mm < 60 \<and> ss < 60
                    then Some (Timezone
                           (if (hh * 60 + mm) * 60 + ss = 0 then 0
                            else (if c = CHR ''-'' then - 1 else 1) *
                                 (((int hh * 60 + int mm) * 60 + int ss) * 1000000 + int us)))
                    else None)))))"

text \<open>
  The texts \<open>isoformat\<close> writes: \<open>YYYY-MM-DDTHH:MM:SS\<close>, optionally \<open>.ffffff\<close>,
  then the offset suffix, with every field in range.
\<close>

definition parse_isoformat :: "string \<Rightarrow> datetime option" where
  "parse_isoformat s =
     (case take_digits 4 s of None \<Rightarrow> None | Some (y, s1) \<Rightarrow>
      (case expect CHR ''-'' s1 of None \<Rightarrow> None | Some s2 \<Rightarrow>
       (case take_digits 2 s2 of None \<Rightarrow> None | Some (m, s3) \<Rightarrow>
        (case expect CHR ''-'' s3 of None \<Rightarrow> None | Some s4 \<Rightarrow>
         (case take_digits 2 s4 of None \<Rightarrow> None | Some (dd, s5) \<Rightarrow>
          (case expect CHR ''T'' s5 of None \<Rightarrow> None | Some s6 \<Rightarrow>
           (case take_digits 2 s6 of None \<Rightarrow> None | Some (h, s7) \<Rightarrow>
            (case expect CHR '':'' s7 of None \<Rightarrow> None | Some s8 \<Rightarrow>
             (case take_digits 2 s8 of None \<Rightarrow> None | Some (mi, s9) \<Rightarrow>
              (case expect CHR '':'' s9 of None \<Rightarrow> None | Some s10 \<Rightarrow>
               (case take_digits 2 s10 of None \<Rightarrow> None | Some (sec, s11) \<Rightarrow>
                (case (case expect CHR ''.'' s11 of
                         None \<Rightarrow> Some (0, s11)
                       | Some s12 \<Rightarrow> take_digits 6 s12) of
                   None \<Rightarrow> None
                 | Some (us, s13) \<Rightarrow>
                     (case parse_offset s13 of
                        None \<Rightarrow> None
                      | Some tz \<Rightarrow>
                          (let d = \<lparr>year = y, month = m, day = dd, hour = h, minute = mi,
                                    second = sec, microsecond = us, tzinfo = tz, fold = 0\<rparr>
                           in if valid_fields d then Some d else None))))))))))))))"

text \<open>
  \<open>datetime.fromisoformat\<close> (Python 3.12, the runtime of the three functions). The
  library refuses every text shorter than seven characters first; on the texts
  \<open>parse_isoformat\<close> reads it returns that value, with a fixed-offset \<open>timezone\<close>
  attached when the text has an offset. What it does with any other text is the
  parameter \<open>other\<close>. The message of the \<open>ValueError\<close> is left without the text's repr.
\<close>

definition fromisoformat :: "(string \<Rightarrow> exn + datetime) \<Rightarrow> string \<Rightarrow> exn + datetime" where
  "fromisoformat other s =
     (if length s < 7 then Inl (ValueError ''Invalid isoformat string'')
      else (case parse_isoformat s of Some d \<Rightarrow> Inr d | None \<Rightarrow> other s))"

text \<open>
  What is left of a value after \<open>isoformat\<close> and \<open>fromisoformat\<close>: the wall-clock
  fields, with the offset the value had attached as a fixed-offset \<open>timezone\<close> and
  \<open>fold\<close> zero. Every \<open>tzinfo\<close> gives an offset strictly within a day (the library
  refuses any other); the offsets that come back as they were are those that are not a
  fraction of a second, as every offset of the time zone database is.
\<close>

definition fixed_offset :: "(string \<Rightarrow> datetime \<Rightarrow> int) \<Rightarrow> datetime \<Rightarrow> datetime" where
  "fixed_offset zones d =
     d\<lparr>tzinfo := (case utcoffset zones d of None \<Rightarrow> NoTz | Some t \<Rightarrow> Timezone t), fold := 0\<rparr>"

definition offset_in_range :: "(string \<Rightarrow> datetime \<Rightarrow> int) \<Rightarrow> datetime \<Rightarrow> bool" where
  "offset_in_range zones d =
     (case utcoffset zones d of
        None \<Rightarrow> True
      | Some t \<Rightarrow> \<bar>t\<bar> < 86400000000 \<and> (t = 0 \<or> 1000000 \<le> \<bar>t\<bar>))"

section \<open>analyze_emails: the batch summarizer\<close>

text \<open>
  \<open>Email\<close> is declared in email_parser and in analyze_emails with the same five
  fields. The string fields hold Python values as they come (\<open>message["subject"]\<close>
  is \<open>None\<close> without the header; \<open>get_emails\<close> stores what the JSON object holds),
  so they are \<open>json\<close> values.
\<close>

record Email =
  id :: json
  subject :: json
  from' :: json
  date :: datetime
  body :: json

text \<open>
  \<open>EmailSummary\<close> is declared in analyze_emails and in slack_notification with the
  same four fields. The annotations say \<open>str\<close>, but analyze_emails stores whatever
  the model's JSON holds, so the field type is a parameter. The field \<open>from_\<close> is
  written \<open>from'\<close>: a name cannot end with an underscore here.
\<close>

record 'v EmailSummary =
  subject :: 'v
  date :: 'v
  from' :: 'v
  summary :: 'v

text \<open>
  \<open>Message\<close> is declared in both files too: analyze_emails builds it from the
  model's JSON, slack_notification reads it back from the published payload.
\<close>

record 'v Message =
  success :: bool
  emails :: "'v EmailSummary list"
  error :: "string option"

text \<open>\<open>dataclasses.asdict\<close> of an \<open>EmailSummary\<close>: the keys are the field names.\<close>

definition asdict :: "json EmailSummary \<Rightarrow> json" where
  "asdict email =
     JObject [(''subject'', subject email), (''date'', date email),
              (''from_'', from' email), (''summary'', summary email)]"

definition Message_asdict :: "json Message \<Rightarrow> json" where
  "Message_asdict m =
     JObject ((''success'', JBool (success m)) #
       (if success m then [(''emails'', JArray (map asdict (emails m)))]
        else [(''error'', (case error m of None \<Rightarrow> JNull | Some s \<Rightarrow> JString s))]))"

text \<open>The body of the comprehension in \<open>request_message\<close>, one element of the array.\<close>

definition to_summary :: "json \<Rightarrow> exn + json EmailSummary" where
  "to_summary email =
     (case getitem email ''subject'' of Inl e \<Rightarrow> Inl e | Inr s \<Rightarrow>
      (case getitem email ''date'' of Inl e \<Rightarrow> Inl e | Inr d \<Rightarrow>
       (case getitem email ''from'' of Inl e \<Rightarrow> Inl e | Inr f \<Rightarrow>
        (case getitem email ''summary'' of Inl e \<Rightarrow> Inl e | Inr u \<Rightarrow>
           Inr \<lparr>subject = s, date = d, from' = f, summary = u\<rparr>))))"

text \<open>
  The \<open>try\<close> block of \<open>request_message\<close>. \<open>loads\<close> is \<open>json.loads\<close>, an external
  library: whatever it raises is its \<open>Inl\<close>.
\<close>

definition parse_summaries :: "(string \<Rightarrow> exn + json) \<Rightarrow> string \<Rightarrow> exn + json EmailSummary list" where
  "parse_summaries loads response_text =
     (case loads response_text of
        Inl e \<Rightarrow> Inl e
      | Inr v \<Rightarrow> (case iterate v of Inl e \<Rightarrow> Inl e | Inr xs \<Rightarrow> comprehension to_summary xs))"

text \<open>\<open>except (json.JSONDecodeError, KeyError)\<close>.\<close>

fun caught :: "exn \<Rightarrow> bool" where
  "caught JSONDecodeError = True"
| "caught (KeyError k) = True"
| "caught e = False"

datatype content_block = TextBlock string | ToolUseBlock

text \<open>
  \<open>request_message\<close>. \<open>create\<close> is \<open>client.messages.create\<close> with the fixed model
  settings and the forced assistant prefix \<open>[\<close>: it maps the prompt to
  \<open>message.content\<close>, or raises.
\<close>

definition request_message ::
  "(string \<Rightarrow> exn + json) \<Rightarrow> (string \<Rightarrow> exn + content_block list) \<Rightarrow> string \<Rightarrow> exn + json Message" where
  "request_message loads create prompt =
     (case create prompt of
        Inl e \<Rightarrow> Inl e
      | Inr content \<Rightarrow>
          (case content of
             [] \<Rightarrow> Inl IndexError
           | ToolUseBlock # rest \<Rightarrow> Inl AssertionError
           | TextBlock text # rest \<Rightarrow>
               (let response_text = ''['' @ text in
                case parse_summaries loads response_text of
                  Inr email_summaries \<Rightarrow>
                    Inr \<lparr>success = True, emails = email_summaries, error = None\<rparr>
                | Inl e \<Rightarrow>
                    if caught e
                    then Inr \<lparr>success = False, emails = [],
                              error = Some (''Failed to parse response: '' @ response_text)\<rparr>
                    else Inl e)))"

text \<open>
  \<open>str(Path(text))\<close> on the Lambda runtime (a \<open>PurePosixPath\<close>): empty and \<open>.\<close>
  components are dropped, the parts are joined by one slash, and the root is \<open>/\<close>,
  or \<open>//\<close> when the text starts with exactly two slashes.
\<close>

fun split_on :: "char \<Rightarrow> string \<Rightarrow> string list" where
  "split_on c [] = [[]]"
| "split_on c (x # xs) =
     (if x = c then [] # split_on c xs
      else (case split_on c xs of [] \<Rightarrow> [[x]] | p # ps \<Rightarrow> (x # p) # ps))"

fun join_with :: "char \<Rightarrow> string list \<Rightarrow> string" where
  "join_with c [] = []"
| "join_with c [p] = p"
| "join_with c (p # q # ps) = p @ c # join_with c (q # ps)"

definition path_parts :: "string \<Rightarrow> string list" where
  "path_parts s = filter (\<lambda>p. p \<noteq> [] \<and> p \<noteq> ''.'') (split_on CHR ''/'' s)"

definition path_root :: "string \<Rightarrow> string" where
  "path_root s =
     (if take 1 s \<noteq> ''/'' then []
      else if take 2 s = ''//'' \<and> take 3 s \<noteq> ''///'' then ''//''
      else ''/'')"

definition path_str :: "string \<Rightarrow> string" where
  "path_str s =
     (if path_root s = [] \<and> path_parts s = [] then ''.''
      else path_root s @ join_with CHR ''/'' (path_parts s))"

text \<open>The text both functions build for a day: \<open>{base}/{year}/{month}/{day}\<close>.\<close>

definition day_dir :: "string \<Rightarrow> datetime \<Rightarrow> string" where
  "day_dir base d =
     base @ ''/'' @ str_nat (year d) @ ''/'' @ str_nat (month d) @ ''/'' @ str_nat (day d)"

text \<open>
  The response of \<open>s3.list_objects_v2\<close>, as far as the code reads it: the key
  \<open>Contents\<close> (absent from the dict when no object matches the prefix; the code
  reads \<open>obj["Key"]\<close> of each entry) and \<open>KeyCount\<close>.
\<close>

record ListObjectsV2Output =
  KeyCount :: nat
  Contents :: "string list option"

text \<open>
  What analyze_emails takes from outside: its environment variables, the S3 client
  (\<open>s3_get_object\<close> is the object's body, read and decoded as UTF-8), the json
  module, Jinja's rendering of the prompt template, the model client, the SNS client,
  and \<open>datetime.now(ZoneInfo(timezone)) - timedelta(days=1)\<close>.
\<close>

record analysis_env =
  bucket_name :: string
  json_email_path :: string
  topic_arn :: string
  s3_list_objects_v2 :: "string \<Rightarrow> string \<Rightarrow> exn + ListObjectsV2Output"
  s3_get_object :: "string \<Rightarrow> string \<Rightarrow> exn + string"
  json_loads :: "string \<Rightarrow> exn + json"
  json_dumps :: "json \<Rightarrow> string"
  fromisoformat_other :: "string \<Rightarrow> exn + datetime"
  template_render :: "Email list \<Rightarrow> exn + string"
  messages_create :: "string \<Rightarrow> exn + content_block list"
  sns_publish :: "string \<Rightarrow> string \<Rightarrow> exn + unit"
  yesterday :: "exn + datetime"

text \<open>\<open>datetime.fromisoformat(value)\<close> on a Python value: only a \<open>str\<close> is read.\<close>

fun fromisoformat_value :: "(string \<Rightarrow> exn + datetime) \<Rightarrow> json \<Rightarrow> exn + datetime" where
  "fromisoformat_value other (JString s) = fromisoformat other s"
| "fromisoformat_value other v = Inl TypeError"

text \<open>The body of the loop of \<open>get_emails\<close>: one listed key to one \<open>Email\<close>.\<close>

definition get_email :: "analysis_env \<Rightarrow> string \<Rightarrow> string \<Rightarrow> exn + Email" where
  "get_email env bucket key =
     (case s3_get_object env bucket key of Inl e \<Rightarrow> Inl e | Inr text \<Rightarrow>
      (case json_loads env text of Inl e \<Rightarrow> Inl e | Inr email_json \<Rightarrow>
       (case getitem email_json ''id'' of Inl e \<Rightarrow> Inl e | Inr i \<Rightarrow>
        (case getitem email_json ''subject'' of Inl e \<Rightarrow> Inl e | Inr s \<Rightarrow>
         (case getitem email_json ''from'' of Inl e \<Rightarrow> Inl e | Inr f \<Rightarrow>
          (case getitem email_json ''date'' of Inl e \<Rightarrow> Inl e | Inr dv \<Rightarrow>
           (case fromisoformat_value (fromisoformat_other env) dv of Inl e \<Rightarrow> Inl e | Inr d \<Rightarrow>
            (case getitem email_json ''body'' of Inl e \<Rightarrow> Inl e | Inr b \<Rightarrow>
               Inr \<lparr>Email.id = i, Email.subject = s, Email.from' = f,
                    Email.date = d, body = b\<rparr>))))))))"

definition get_emails :: "analysis_env \<Rightarrow> string \<Rightarrow> string \<Rightarrow> exn + Email list" where
  "get_emails env bucket path =
     (case s3_list_objects_v2 env bucket path of
        Inl e \<Rightarrow> Inl e
      | Inr list_response \<Rightarrow>
          (case Contents list_response of
             None \<Rightarrow> Inl (KeyError ''Contents'')
           | Some keys \<Rightarrow> comprehension (get_email env bucket) keys))"

text \<open>
  What a run of the handler does to the outside besides reading S3: building the
  prompt, invoking the model, publishing to the topic (\<open>TopicArn\<close>, \<open>Message\<close>).
\<close>

datatype effect = BuildPrompt | InvokeModel string | Publish string string

text \<open>
  The event, as far as the handler reads it: the key \<open>path_override\<close>, absent or a
  prefix to list instead of yesterday's.
\<close>

record event =
  path_override :: "string option"

definition day_path :: "analysis_env \<Rightarrow> event \<Rightarrow> exn + string" where
  "day_path env ev =
     (case path_override ev of
        Some p \<Rightarrow> Inr p
      | None \<Rightarrow>
          (case yesterday env of
             Inl e \<Rightarrow> Inl e
           | Inr target \<Rightarrow>
               Inr (path_str (json_email_path env @ ''/'' @ str_nat (year target) @ ''/'' @
                              str_nat (month target) @ ''/'' @ str_nat (day target)) @ ''/'')))"

definition send_to_topic :: "analysis_env \<Rightarrow> json Message \<Rightarrow> (exn + unit) \<times> effect list" where
  "send_to_topic env message =
     (let text = json_dumps env (Message_asdict message)
      in (sns_publish env (topic_arn env) text, [Publish (topic_arn env) text]))"

text \<open>
  \<open>lambda_handler\<close> of analyze_emails: how the run ends (\<open>Inr ()\<close> is the return,
  \<open>Inl\<close> the exception that leaves the handler) and its effects in order.
\<close>

definition lambda_handler :: "analysis_env \<Rightarrow> event \<Rightarrow> (exn + unit) \<times> effect list" where
  "lambda_handler env ev =
     (case day_path env ev of
        Inl e \<Rightarrow> (Inl e, [])
      | Inr path \<Rightarrow>
          (case get_emails env (bucket_name env) path of
             Inl e \<Rightarrow> (Inl e, [])
           | Inr es \<Rightarrow>
               if es = [] then (Inr (), [])
               else
                 (case template_render env es of
                    Inl e \<Rightarrow> (Inl e, [BuildPrompt])
                  | Inr prompt \<Rightarrow>
                      (case request_message (json_loads env) (messages_create env) prompt of
                         Inl e \<Rightarrow> (Inl e, [BuildPrompt, InvokeModel prompt])
                       | Inr message \<Rightarrow>
                           if success message \<and> emails message = []
                           then (Inr (), [BuildPrompt, InvokeModel prompt])
                           else (case send_to_topic env message of
                                   (r, effs) \<Rightarrow> (r, [BuildPrompt, InvokeModel prompt] @ effs))))))"

text \<open>The shapes of array elements the statements below speak of.\<close>

fun is_object :: "json \<Rightarrow> bool" where
  "is_object (JObject kvs) = True"
| "is_object v = False"

definition required_fields :: "string list" where
  "required_fields = [''subject'', ''date'', ''from'', ''summary'']"

fun missing_field :: "json \<Rightarrow> bool" where
  "missing_field (JObject kvs) = list_ex (\<lambda>k. map_of kvs k = None) required_fields"
| "missing_field v = False"

definition complete_object :: "json \<Rightarrow> bool" where
  "complete_object v = (is_object v \<and> \<not> missing_field v)"

text \<open>The keys of a dict, in order.\<close>

fun keys_of :: "json \<Rightarrow> string list" where
  "keys_of (JObject kvs) = map fst kvs"
| "keys_of v = []"

section \<open>The bucket\<close>

text \<open>
  The bucket both functions use, as S3 keeps it: its objects, each key once with the
  body stored under it. \<open>put_object\<close> replaces the object of its key;
  \<open>get_object\<close> returns the body or fails; \<open>list_objects_v2\<close> returns one page,
  the first 1000 keys with the prefix in the byte order of the keys, and leaves
  \<open>Contents\<close> out of the response when no key matches.
\<close>

type_synonym s3_bucket = "(string \<times> string) list"

definition put_object :: "s3_bucket \<Rightarrow> string \<Rightarrow> string \<Rightarrow> s3_bucket" where
  "put_object objs key text = (key, text) # filter (\<lambda>kv. fst kv \<noteq> key) objs"

definition get_body :: "s3_bucket \<Rightarrow> string \<Rightarrow> exn + string" where
  "get_body objs key =
     (case map_of objs key of None \<Rightarrow> Inl (OtherError ''NoSuchKey'') | Some text \<Rightarrow> Inr text)"

definition has_prefix :: "string \<Rightarrow> string \<Rightarrow> bool" where
  "has_prefix p key = (take (length p) key = p)"

definition list_page :: "s3_bucket \<Rightarrow> string \<Rightarrow> ListObjectsV2Output" where
  "list_page objs p =
     (let ks = take 1000 (sort (filter (has_prefix p) (map fst objs)))
      in \<lparr>KeyCount = length ks, Contents = (if ks = [] then None else Some ks)\<rparr>)"

text \<open>The S3 client of analyze_emails answers from this bucket.\<close>

definition reads_bucket :: "analysis_env \<Rightarrow> s3_bucket \<Rightarrow> bool" where
  "reads_bucket env objs =
     ((\<forall>p. s3_list_objects_v2 env (bucket_name env) p = Inr (list_page objs p)) \<and>
      (\<forall>key. s3_get_object env (bucket_name env) key = get_body objs key))"

section \<open>email_parser: the extractor and the store's writer\<close>

text \<open>
  A parsed message as the code reads it. Of a part (or of a message that is not
  multipart): \<open>get_content_type()\<close>, \<open>get_content_charset()\<close> (\<open>None\<close> without a
  charset parameter) and \<open>get_payload(decode=True)\<close> (a \<open>bytes\<close> value, one
  \<open>char\<close> for each byte). A part that is itself multipart is a part whose type is
  neither of the two the code looks for. Of the message: its headers (\<open>message[name]\<close>
  under \<open>policy.default\<close>: the header's text, \<open>None\<close> when it is absent, or the
  exception the header parser raises on it) and either the parts \<open>iter_parts()\<close>
  yields or the single body.
\<close>

type_synonym bytes = "char list"

record mime_part =
  content_type :: string
  content_charset :: "string option"
  payload :: bytes

datatype mime_structure = Multipart "mime_part list" | Singlepart mime_part

record EmailMessage =
  header :: "string \<Rightarrow> exn + string option"
  content :: mime_structure

text \<open>
  What email_parser takes from outside: its environment variables, the S3 client
  (whether a put fails), the email parser
  (\<open>BytesParser(policy=policy.default).parsebytes\<close>), the date grammar of
  \<open>email.utils\<close> on a header text (\<open>None\<close> for a text it refuses), \<open>ZoneInfo(key)\<close>
  with the wall clock \<open>d.astimezone\<close> computes in that zone, the codecs
  (\<open>data.decode(charset)\<close>), the texts \<open>HTMLParser.feed\<close> hands to \<open>handle_data\<close>,
  the formatting of a value that is not a \<open>str\<close> in an f-string, \<open>json.dumps\<close> and
  the time zone database.
\<close>

record parser_env =
  parser_bucket_name :: string
  raw_email_path :: string
  parser_json_email_path :: string
  parser_timezone :: string
  s3_get_raw :: "string \<Rightarrow> string \<Rightarrow> exn + bytes"
  s3_put_object :: "string \<Rightarrow> string \<Rightarrow> string \<Rightarrow> exn + unit"
  parsebytes :: "bytes \<Rightarrow> EmailMessage"
  parse_date :: "string \<Rightarrow> datetime option"
  zone_wall_clock :: "datetime \<Rightarrow> string \<Rightarrow> exn + datetime"
  bytes_decode :: "string \<Rightarrow> bytes \<Rightarrow> exn + string"
  html_feed :: "string \<Rightarrow> string list"
  format_other :: "json \<Rightarrow> string"
  parser_json_dumps :: "json \<Rightarrow> string"
  tzdb :: "string \<Rightarrow> datetime \<Rightarrow> int"

text \<open>
  \<open>email.utils.parsedate_to_datetime\<close> (Python 3.12): \<open>None\<close>, the value of an
  absent header, and a text the date grammar refuses are refused with \<open>ValueError\<close>,
  whose message quotes \<open>str\<close> of the argument. The function never returns \<open>None\<close>;
  the result type keeps the annotation of the source, which checks for it.
\<close>

definition parsedate_to_datetime :: "parser_env \<Rightarrow> string option \<Rightarrow> exn + datetime option" where
  "parsedate_to_datetime penv v =
     (case v of
        None \<Rightarrow> Inl (ValueError ''Invalid date value or format \"None\"'')
      | Some s \<Rightarrow>
          (case parse_date penv s of
             None \<Rightarrow> Inl (ValueError (''Invalid date value or format \"'' @ s @ ''\"''))
           | Some d \<Rightarrow> Inr (Some d)))"

text \<open>
  \<open>d.astimezone(ZoneInfo(key))\<close>: the zone may be unknown and the conversion may
  overflow; the value returned carries the zone it was converted to.
\<close>

definition astimezone :: "parser_env \<Rightarrow> datetime \<Rightarrow> string \<Rightarrow> exn + datetime" where
  "astimezone penv d key =
     (case zone_wall_clock penv d key of
        Inl e \<Rightarrow> Inl e
      | Inr w \<Rightarrow> Inr (w\<lparr>tzinfo := ZoneInfo key\<rparr>))"

definition get_email_date :: "parser_env \<Rightarrow> EmailMessage \<Rightarrow> string \<Rightarrow> exn + datetime" where
  "get_email_date penv message tz =
     (case header message ''date'' of
        Inl e \<Rightarrow> Inl e
      | Inr v \<Rightarrow>
          (case parsedate_to_datetime penv v of
             Inl e \<Rightarrow> Inl e
           | Inr None \<Rightarrow> Inl (ValueError ''Email date not found'')
           | Inr (Some d) \<Rightarrow> astimezone penv d tz))"

text \<open>\<open>strip_html\<close>: the texts the stripper was fed, joined.\<close>

definition strip_html :: "parser_env \<Rightarrow> string \<Rightarrow> string" where
  "strip_html penv html = concat (html_feed penv html)"

text \<open>
  \<open>part.get_payload(decode=True).decode(part.get_content_charset())\<close>: with no
  charset the argument of \<open>decode\<close> is \<open>None\<close>, a \<open>TypeError\<close>.
\<close>

definition decode_part :: "parser_env \<Rightarrow> mime_part \<Rightarrow> exn + string" where
  "decode_part penv part =
     (case content_charset part of
        None \<Rightarrow> Inl TypeError
      | Some charset \<Rightarrow> bytes_decode penv charset (payload part))"

text \<open>
  The loop over the parts in \<open>_get_email_body\<close>, with the value of \<open>body\<close> so far:
  a \<open>text/plain\<close> part sets it and breaks, a \<open>text/html\<close> part sets it and goes on.
\<close>

fun scan_parts :: "parser_env \<Rightarrow> mime_part list \<Rightarrow> string option \<Rightarrow> exn + string option" where
  "scan_parts penv [] b = Inr b"
| "scan_parts penv (part # ps) b =
     (if content_type part = ''text/plain''
      then (case decode_part penv part of Inl e \<Rightarrow> Inl e | Inr t \<Rightarrow> Inr (Some t))
      else if content_type part = ''text/html''
      then (case decode_part penv part of
              Inl e \<Rightarrow> Inl e
            | Inr t \<Rightarrow> scan_parts penv ps (Some (strip_html penv t)))
      else scan_parts penv ps b)"

definition get_email_body :: "parser_env \<Rightarrow> EmailMessage \<Rightarrow> exn + string" where
  "get_email_body penv message =
     (case (case content message of
              Multipart ps \<Rightarrow> scan_parts penv ps None
            | Singlepart part \<Rightarrow>
                if content_type part = ''text/plain''
                then (case decode_part penv part of Inl e \<Rightarrow> Inl e | Inr t \<Rightarrow> Inr (Some t))
                else if content_type part = ''text/html''
                then (case decode_part penv part of
                        Inl e \<Rightarrow> Inl e
                      | Inr t \<Rightarrow> Inr (Some (strip_html penv t)))
                else Inr None) of
        Inl e \<Rightarrow> Inl e
      | Inr None \<Rightarrow> Inl (ValueError ''Email body not found'')
      | Inr (Some b) \<Rightarrow> Inr b)"

text \<open>A header value as a Python value.\<close>

definition header_value :: "string option \<Rightarrow> json" where
  "header_value v = (case v of None \<Rightarrow> JNull | Some s \<Rightarrow> JString s)"

text \<open>
  \<open>read_email\<close>: the arguments of \<open>Email(...)\<close> are evaluated in order, the subject
  and the sender before the date, the date before the body.
\<close>

definition read_email :: "parser_env \<Rightarrow> string \<Rightarrow> string \<Rightarrow> exn + Email" where
  "read_email penv email_id tz =
     (case s3_get_raw penv (parser_bucket_name penv)
             (path_str (raw_email_path penv @ ''/'' @ email_id)) of
        Inl e \<Rightarrow> Inl e
      | Inr raw_email \<Rightarrow>
          (let message = parsebytes penv raw_email in
           case header message ''subject'' of
             Inl e \<Rightarrow> Inl e
           | Inr subj \<Rightarrow>
               (case header message ''from'' of
                  Inl e \<Rightarrow> Inl e
                | Inr sender \<Rightarrow>
                    (case get_email_date penv message tz of
                       Inl e \<Rightarrow> Inl e
                     | Inr d \<Rightarrow>
                         (case get_email_body penv message of
                            Inl e \<Rightarrow> Inl e
                          | Inr b \<Rightarrow>
                              Inr \<lparr>Email.id = JString email_id,
                                   Email.subject = header_value subj,
                                   Email.from' = header_value sender,
                                   Email.date = d, body = JString b\<rparr>)))))"

text \<open>A value in an f-string: a \<open>str\<close> is itself.\<close>

definition format_value :: "parser_env \<Rightarrow> json \<Rightarrow> string" where
  "format_value penv v = (case v of JString s \<Rightarrow> s | _ \<Rightarrow> format_other penv v)"

text \<open>The key and the document \<open>write_email\<close> puts.\<close>

definition email_key :: "parser_env \<Rightarrow> Email \<Rightarrow> string" where
  "email_key penv email =
     path_str (parser_json_email_path penv @ ''/'' @ str_nat (year (Email.date email)) @ ''/'' @
               str_nat (month (Email.date email)) @ ''/'' @ str_nat (day (Email.date email)) @
               ''/'' @ format_value penv (Email.id email) @ ''.json'')"

definition email_document :: "parser_env \<Rightarrow> Email \<Rightarrow> json" where
  "email_document penv email =
     JObject [(''id'', Email.id email), (''subject'', Email.subject email),
              (''from'', Email.from' email),
              (''date'', JString (isoformat (tzdb penv) (Email.date email))),
              (''body'', body email)]"

text \<open>
  \<open>write_email\<close> on a bucket: how the call ends, and the bucket after it (the text
  is stored as its UTF-8 bytes, which a \<open>string\<close> is).
\<close>

definition write_email :: "parser_env \<Rightarrow> s3_bucket \<Rightarrow> Email \<Rightarrow> (exn + unit) \<times> s3_bucket" where
  "write_email penv objs email =
     (let key = email_key penv email;
          text = parser_json_dumps penv (email_document penv email)
      in case s3_put_object penv (parser_bucket_name penv) key text of
           Inl e \<Rightarrow> (Inl e, objs)
         | Inr u \<Rightarrow> (Inr (), put_object objs key text))"

text \<open>
  \<open>lambda_handler\<close> of email_parser over the message ids of the event's records: each
  is read with the configured time zone and written; the first exception ends the run.
\<close>

fun parser_lambda_handler ::
  "parser_env \<Rightarrow> s3_bucket \<Rightarrow> string list \<Rightarrow> (exn + unit) \<times> s3_bucket" where
  "parser_lambda_handler penv objs [] = (Inr (), objs)"
| "parser_lambda_handler penv objs (message_id # ids) =
     (case read_email penv message_id (parser_timezone penv) of
        Inl e \<Rightarrow> (Inl e, objs)
      | Inr email \<Rightarrow>
          (case write_email penv objs email of
             (Inl e, objs') \<Rightarrow> (Inl e, objs')
           | (Inr u, objs') \<Rightarrow> parser_lambda_handler penv objs' ids))"

section \<open>slack_notification: the renderer\<close>

text \<open>
  The header line of a summary message, \<open>:email:\<close> followed by a Japanese sentence
  (new mail was found), as its UTF-8 bytes.
\<close>

definition header_text :: string where
  "header_text = '':email: '' @
     [CHR 0xE6, CHR 0x96, CHR 0xB0, CHR 0xE3, CHR 0x81, CHR 0x97, CHR 0xE3, CHR 0x81, CHR 0x84,
      CHR 0xE3, CHR 0x83, CHR 0xA1, CHR 0xE3, CHR 0x83, CHR 0xBC, CHR 0xE3, CHR 0x83, CHR 0xAB,
      CHR 0xE3, CHR 0x81, CHR 0x8C, CHR 0xE8, CHR 0xA6, CHR 0x8B, CHR 0xE3, CHR 0x81, CHR 0xA4,
      CHR 0xE3, CHR 0x81, CHR 0x8B, CHR 0xE3, CHR 0x82, CHR 0x8A, CHR 0xE3, CHR 0x81, CHR 0xBE,
      CHR 0xE3, CHR 0x81, CHR 0x97, CHR 0xE3, CHR 0x81, CHR 0x9F]"

definition mrkdwn :: "string \<Rightarrow> json" where
  "mrkdwn t = JObject [(''type'', JString ''mrkdwn''), (''text'', JString t)]"

text \<open>
  The four blocks \<open>generate_payload\<close> appends for one email. \<open>other\<close> is the
  parameter of \<open>fromisoformat\<close>; \<open>strftime\<close> is \<open>d.strftime("%Y/%m/%d %H:%M")\<close>,
  left to the platform's C library.
\<close>

definition email_blocks ::
  "(string \<Rightarrow> exn + datetime) \<Rightarrow> (datetime \<Rightarrow> string) \<Rightarrow> string EmailSummary \<Rightarrow> exn + json list" where
  "email_blocks other strftime email =
     (case fromisoformat other (date email) of
        Inl e \<Rightarrow> Inl e
      | Inr d \<Rightarrow>
          Inr [JObject [(''type'', JString ''divider'')],
               JObject [(''type'', JString ''section''),
                        (''text'', mrkdwn (''*'' @ subject email @ ''*''))],
               JObject [(''type'', JString ''section''),
                        (''fields'', JArray [mrkdwn (strftime d), mrkdwn (from' email)])],
               JObject [(''type'', JString ''section''),
                        (''text'', JObject [(''type'', JString ''plain_text''),
                                            (''text'', JString (summary email)),
                                            (''emoji'', JBool True)])]])"

definition generate_payload ::
  "(string \<Rightarrow> exn + datetime) \<Rightarrow> (datetime \<Rightarrow> string) \<Rightarrow> string EmailSummary list \<Rightarrow> exn + json" where
  "generate_payload other strftime es =
     (case comprehension (email_blocks other strftime) es of
        Inl e \<Rightarrow> Inl e
      | Inr bs \<Rightarrow>
          Inr (JObject [(''blocks'',
                 JArray (JObject [(''type'', JString ''section''),
                                  (''text'', mrkdwn header_text)] # concat bs))]))"

text \<open>The payload \<open>send_error_message\<close> posts.\<close>

definition error_payload :: "string \<Rightarrow> json" where
  "error_payload err = JObject [(''text'', JString (''Error: '' @ err))]"

text \<open>
  What the handler of slack_notification renders for one message, to be posted to the
  webhook: the branch on \<open>message.success\<close>, with \<open>message.error or "no error contained"\<close>
  (an absent or empty error text gives the default).
\<close>

definition render ::
  "(string \<Rightarrow> exn + datetime) \<Rightarrow> (datetime \<Rightarrow> string) \<Rightarrow> string Message \<Rightarrow> exn + json" where
  "render other strftime message =
     (if success message then generate_payload other strftime (emails message)
      else Inr (error_payload
                 (case error message of
                    None \<Rightarrow> ''no error contained''
                  | Some err \<Rightarrow> if err = [] then ''no error contained'' else err)))"

text \<open>
  For the examples: a \<open>strftime\<close> that pads every field (\<open>YYYY/MM/DD HH:MM\<close>), and
  a \<open>fromisoformat\<close> parameter that refuses every text it is asked about.
\<close>

definition padded_strftime :: "datetime \<Rightarrow> string" where
  "padded_strftime d =
     zero_pad 4 (year d) @ ''/'' @ zero_pad 2 (month d) @ ''/'' @ zero_pad 2 (day d) @ '' '' @
     zero_pad 2 (hour d) @ '':'' @ zero_pad 2 (minute d)"

definition refuse_other :: "string \<Rightarrow> exn + datetime" where
  "refuse_other s = Inl (ValueError ''Invalid isoformat string'')"

section \<open>Concrete inputs for the examples\<close>

text \<open>
  \<open>json.loads\<close> on the texts an example uses: the listed texts decode to the listed
  values, any other text is refused.
\<close>

definition loads_on :: "(string \<times> json) list \<Rightarrow> string \<Rightarrow> exn + json" where
  "loads_on table s = (case map_of table s of Some v \<Rightarrow> Inr v | None \<Rightarrow> Inl JSONDecodeError)"

text \<open>
  An environment whose bucket holds the listed objects (a listing has no \<open>Contents\<close>
  when no key matches, as S3 answers), whose decoder knows the listed texts, and whose
  model answers every prompt with the given completion.
\<close>

definition example_env ::
  "(string \<times> string) list \<Rightarrow> (string \<times> json) list \<Rightarrow> string \<Rightarrow> analysis_env" where
  "example_env objects table completion =
     \<lparr>bucket_name = ''bucket'', json_email_path = ''json'', topic_arn = ''topic'',
      s3_list_objects_v2 =
        (\<lambda>b p. let ks = filter (\<lambda>k. take (length p) k = p) (map fst objects)
               in Inr \<lparr>KeyCount = length ks, Contents = (if ks = [] then None else Some ks)\<rparr>),
      s3_get_object =
        (\<lambda>b k. case map_of objects k of None \<Rightarrow> Inl (OtherError ''NoSuchKey'') | Some t \<Rightarrow> Inr t),
      json_loads = loads_on table,
      json_dumps = (\<lambda>v. ''payload''),
      fromisoformat_other = (\<lambda>s. Inl (ValueError ''Invalid isoformat string'')),
      template_render = (\<lambda>es. Inr ''prompt''),
      messages_create = (\<lambda>p. Inr [TextBlock completion]),
      sns_publish = (\<lambda>t m. Inr ()),
      yesterday = Inr \<lparr>year = 2024, month = 1, day = 2, hour = 9, minute = 0, second = 0,
                       microsecond = 0, tzinfo = ZoneInfo ''Asia/Tokyo'', fold = 0\<rparr>\<rparr>"

definition example_email_json :: json where
  "example_email_json =
     JObject [(''id'', JString ''a''), (''subject'', JString ''Hello''),
              (''from'', JString ''alice@example.com''),
              (''date'', JString ''2024-01-02T03:04:05+09:00''), (''body'', JString ''Hi'')]"

definition example_email :: Email where
  "example_email =
     \<lparr>Email.id = JString ''a'', Email.subject = JString ''Hello'',
      Email.from' = JString ''alice@example.com'',
      Email.date = \<lparr>year = 2024, month = 1, day = 2, hour = 3, minute = 4, second = 5,
                     microsecond = 0, tzinfo = Timezone 32400000000, fold = 0\<rparr>,
      body = JString ''Hi''\<rparr>"

text \<open>A bucket with one stored email for 2 January 2024, and the decoder for it.\<close>

definition example_email_text :: string where
  "example_email_text =
     ''{\"id\": \"a\", \"subject\": \"Hello\", \"from\": \"alice@example.com\", \"date\": \"2024-01-02T03:04:05+09:00\", \"body\": \"Hi\"}''"

definition one_email_env :: "string \<Rightarrow> analysis_env" where
  "one_email_env completion =
     example_env [(''json/2024/1/2/a.json'', example_email_text)]
       [(example_email_text, example_email_json)] completion"

text \<open>
  A codec registry that knows only ASCII, a stripper that is handed the text outside
  angle brackets in one piece, and an environment around one parsed message: its date
  grammar knows one header text, and its time zone is nine hours ahead of UTC, the
  offset of that date, so the wall clock stays.
\<close>

definition ascii_decode :: "string \<Rightarrow> bytes \<Rightarrow> exn + string" where
  "ascii_decode charset bs =
     (if charset \<noteq> ''us-ascii'' then Inl (OtherError ''LookupError'')
      else if list_all (\<lambda>b. (of_char b :: nat) < 128) bs then Inr bs
      else Inl (OtherError ''UnicodeDecodeError''))"

fun outside_tags :: "bool \<Rightarrow> string \<Rightarrow> string" where
  "outside_tags in_tag [] = []"
| "outside_tags in_tag (c # cs) =
     (if in_tag then outside_tags (c \<noteq> CHR ''>'') cs
      else if c = CHR ''<'' then outside_tags True cs
      else c # outside_tags False cs)"

definition example_date :: datetime where
  "example_date = \<lparr>year = 2024, month = 1, day = 2, hour = 3, minute = 4, second = 5,
                    microsecond = 0, tzinfo = Timezone 32400000000, fold = 0\<rparr>"

definition example_parser_env :: "EmailMessage \<Rightarrow> parser_env" where
  "example_parser_env message =
     \<lparr>parser_bucket_name = ''bucket'', raw_email_path = ''raw'',
      parser_json_email_path = ''json'', parser_timezone = ''Asia/Tokyo'',
      s3_get_raw = (\<lambda>b k. Inr []),
      s3_put_object = (\<lambda>b k t. Inr ()),
      parsebytes = (\<lambda>raw. message),
      parse_date =
        (\<lambda>s. if s = ''Tue, 02 Jan 2024 03:04:05 +0900'' then Some example_date else None),
      zone_wall_clock = (\<lambda>d tz. Inr d),
      bytes_decode = ascii_decode,
      html_feed = (\<lambda>html. [outside_tags False html]),
      format_other = (\<lambda>v. ''None''),
      parser_json_dumps = (\<lambda>v. ''{}''),
      tzdb = (\<lambda>key d. 32400000000)\<rparr>"

text \<open>
  A message with the given \<open>Date\<close> header (and no other) and the given content, and
  a message with no \<open>Date\<close> header whose \<open>From\<close> header the header parser fails on
  with \<open>IndexError\<close> (as it does on a lone double quote).
\<close>

definition dated :: "string option \<Rightarrow> mime_structure \<Rightarrow> EmailMessage" where
  "dated d c = \<lparr>header = (\<lambda>name. if name = ''date'' then Inr d else Inr None), content = c\<rparr>"


definition html_part :: "string option \<Rightarrow> bytes \<Rightarrow> mime_part" where
  "html_part charset bs = \<lparr>content_type = ''text/html'', content_charset = charset, payload = bs\<rparr>"

definition plain_part :: "string option \<Rightarrow> bytes \<Rightarrow> mime_part" where
  "plain_part charset bs = \<lparr>content_type = ''text/plain'', content_charset = charset, payload = bs\<rparr>"

text \<open>
  An environment for \<open>write_email\<close>: the time zone database, and the text
  \<open>json.dumps\<close> gives for the document written. An environment of analyze_emails
  that reads a given bucket. The email of the example above before it was written, its
  time zone still attached.
\<close>

definition writer_env :: "(string \<Rightarrow> datetime \<Rightarrow> int) \<Rightarrow> string \<Rightarrow> parser_env" where
  "writer_env zones written =
     (example_parser_env (dated None (Multipart [])))
       \<lparr>tzdb := zones, parser_json_dumps := (\<lambda>v. written)\<rparr>"

definition bucket_env :: "s3_bucket \<Rightarrow> (string \<times> json) list \<Rightarrow> analysis_env" where
  "bucket_env objs table =
     (example_env [] table [])
       \<lparr>s3_list_objects_v2 := (\<lambda>b p. Inr (list_page objs p)),
        s3_get_object := (\<lambda>b key. get_body objs key)\<rparr>"

definition tokyo_email :: Email where
  "tokyo_email = example_email\<lparr>Email.date := example_date\<lparr>tzinfo := ZoneInfo ''Asia/Tokyo''\<rparr>\<rparr>"

text \<open>
  An email received in New York in the hour that the end of daylight saving time
  repeats (5 November 2023, 01:30, first pass: four hours behind UTC, five on the
  second), and its stored text. A day's prefix already holding a thousand objects
  \<open>a0.json\<close> to \<open>a999.json\<close>, each the stored text of the example email.
\<close>

definition fall_back_zone :: "string \<Rightarrow> datetime \<Rightarrow> int" where
  "fall_back_zone key d = (if fold d = 1 then - 18000000000 else - 14400000000)"

definition fall_back_date :: datetime where
  "fall_back_date = \<lparr>year = 2023, month = 11, day = 5, hour = 1, minute = 30, second = 0,
                      microsecond = 0, tzinfo = ZoneInfo ''America/New_York'', fold = 0\<rparr>"

definition fall_back_email :: Email where
  "fall_back_email =
     \<lparr>Email.id = JString ''b'', Email.subject = JString ''Hello'',
      Email.from' = JString ''alice@example.com'', Email.date = fall_back_date,
      body = JString ''Hi''\<rparr>"

definition fall_back_text :: string where
  "fall_back_text =
     ''{\"id\": \"b\", \"subject\": \"Hello\", \"from\": \"alice@example.com\", \"date\": \"2023-11-05T01:30:00-04:00\", \"body\": \"Hi\"}''"

definition fall_back_json :: json where
  "fall_back_json =
     JObject [(''id'', JString ''b''), (''subject'', JString ''Hello''),
              (''from'', JString ''alice@example.com''),
              (''date'', JString ''2023-11-05T01:30:00-04:00''), (''body'', JString ''Hi'')]"

definition thousand_objects :: s3_bucket where
  "thousand_objects =
     map (\<lambda>n. (''json/2023/11/5/'' @ ''a'' @ str_nat n @ ''.json'', example_email_text))
       [0..<1000]"

text \<open>
  The example email with a \<open>timezone\<close> of one microsecond attached (an offset
  \<open>isoformat\<close> writes as \<open>+00:00:00.000001\<close>), its stored text and the document.
\<close>

definition microsecond_offset_email :: Email where
  "microsecond_offset_email = example_email\<lparr>Email.date := example_date\<lparr>tzinfo := Timezone 1\<rparr>\<rparr>"

definition microsecond_offset_text :: string where
  "microsecond_offset_text =
     ''{\"id\": \"a\", \"subject\": \"Hello\", \"from\": \"alice@example.com\", \"date\": \"2024-01-02T03:04:05+00:00:00.000001\", \"body\": \"Hi\"}''"

definition microsecond_offset_json :: json where
  "microsecond_offset_json =
     JObject [(''id'', JString ''a''), (''subject'', JString ''Hello''),
              (''from'', JString ''alice@example.com''),
              (''date'', JString ''2024-01-02T03:04:05+00:00:00.000001''),
              (''body'', JString ''Hi'')]"

section \<open>The summarizer's outcome\<close>

lemma to_summary_not_object: "\<not> is_object x \<Longrightarrow> to_summary x = Inl TypeError"
  by (cases x) (simp_all add: to_summary_def)



lemma to_summary_complete: "complete_object x \<Longrightarrow> \<exists>s. to_summary x = Inr s"
  by (cases x)
    (auto simp: to_summary_def complete_object_def required_fields_def split: option.splits)


lemma comprehension_type_error:
  "\<forall>y\<in>set ys. complete_object y \<Longrightarrow> \<not> is_object x \<Longrightarrow>
   comprehension to_summary (ys @ x # zs) = Inl TypeError"
proof (induction ys)
  case Nil
  then show ?case by (simp add: to_summary_not_object)
next
  case (Cons y ys)
  then have "complete_object y" by simp
  from to_summary_complete [OF this] Cons show ?case by auto
qed




text \<open>
  C10, as stated, at the completion \<open>{}, 1]\<close>: the reconstructed text \<open>[{}, 1]\<close> is a
  valid JSON array with the non-object element \<open>1\<close>, yet the element \<open>{}\<close> is met
  first, its \<open>KeyError\<close> is caught, and the result is a Failure.
\<close>

theorem C10_counterexample:
  "\<not> is_object (JInt 1) \<and>
   request_message (loads_on [(''[{}, 1]'', JArray [JObject [], JInt 1])])
     (\<lambda>prompt. Inr [TextBlock ''{}, 1]'']) ''prompt'' =
   Inr \<lparr>success = False, emails = [], error = Some ''Failed to parse response: [{}, 1]''\<rparr>"
  by (simp add: request_message_def parse_summaries_def loads_on_def to_summary_def)

text \<open>
  C10, amended: when the reconstructed text parses as a JSON array that has an element
  which is not an object, and every element before that one is an object with the four
  required fields, \<open>request_message\<close> returns neither Success nor Failure: the
  \<open>TypeError\<close> of the subscript leaves it.
\<close>

theorem C10_type_error_propagates:
  assumes "create prompt = Inr (TextBlock completion # rest)"
    and "loads (''['' @ completion) = Inr (JArray (ys @ x # zs))"
    and "\<forall>y\<in>set ys. complete_object y"
    and "\<not> is_object x"
  shows "request_message loads create prompt = Inl TypeError"
  using assms comprehension_type_error [of ys x zs]
  by (simp add: request_message_def parse_summaries_def)

theorem C10_type_error_propagates_witness:
  "\<not> is_object (JInt 1) \<and>
   request_message (loads_on [(''[1]'', JArray [JInt 1])])
     (\<lambda>prompt. Inr [TextBlock ''1]'']) ''prompt'' = Inl TypeError"
proof -
  have l: "loads_on [(''[1]'', JArray [JInt 1])] (''['' @ ''1]'') =
           Inr (JArray ([] @ JInt 1 # []))"
    by (simp add: loads_on_def)
  note th = C10_type_error_propagates [where loads = "loads_on [(''[1]'', JArray [JInt 1])]"
      and create = "\<lambda>prompt. Inr [TextBlock ''1]'']" and prompt = "''prompt''"
      and completion = "''1]''" and rest = "[]" and ys = "[]" and x = "JInt 1" and zs = "[]"]
  from th l show ?thesis by simp
qed

section \<open>The outcome payload and its publication\<close>

text \<open>
  C4, as stated, at a Success with one item: the item's object has the key \<open>from_\<close>
  (the dataclass field), not \<open>from\<close>.
\<close>

theorem C4_counterexample:
  "Message_asdict
     \<lparr>success = True,
      emails = [\<lparr>subject = JString ''Hello'', date = JString ''2024-01-02T03:04:05+09:00'',
                 from' = JString ''alice@example.com'', summary = JString ''Greeting''\<rparr>],
      error = None\<rparr> =
   JObject [(''success'', JBool True),
            (''emails'', JArray [JObject [(''subject'', JString ''Hello''),
               (''date'', JString ''2024-01-02T03:04:05+09:00''),
               (''from_'', JString ''alice@example.com''),
               (''summary'', JString ''Greeting'')]])] \<and>
   getitem (asdict \<lparr>subject = JString ''Hello'', date = JString ''2024-01-02T03:04:05+09:00'',
                     from' = JString ''alice@example.com'', summary = JString ''Greeting''\<rparr>)
     ''from'' = Inl (KeyError ''from'')"
  by (simp add: Message_asdict_def asdict_def)

text \<open>
  C4, amended: every outcome payload has the boolean key \<open>success\<close> and exactly one
  of the keys \<open>emails\<close> and \<open>error\<close>. When success is true the keys are \<open>success\<close>
  and \<open>emails\<close>, and \<open>emails\<close> is the list of the items, each an object with exactly
  the keys \<open>subject\<close>, \<open>date\<close>, \<open>from_\<close>, \<open>summary\<close>; when success is false the
  keys are \<open>success\<close> and \<open>error\<close>.
\<close>

theorem C4_payload_keys:
  "getitem (Message_asdict m) ''success'' = Inr (JBool (success m)) \<and>
   keys_of (Message_asdict m) =
     (if success m then [''success'', ''emails''] else [''success'', ''error'']) \<and>
   getitem (Message_asdict m) ''emails'' =
     (if success m then Inr (JArray (map asdict (emails m))) else Inl (KeyError ''emails'')) \<and>
   getitem (Message_asdict m) ''error'' =
     (if success m then Inl (KeyError ''error'')
      else Inr (case error m of None \<Rightarrow> JNull | Some s \<Rightarrow> JString s)) \<and>
   keys_of (asdict email) = [''subject'', ''date'', ''from_'', ''summary'']"
  by (simp add: Message_asdict_def asdict_def)

text \<open>
  C5: once the day's emails are read (a non-empty list) and the summarizer has returned
  its message, the handler's effects are the prompt, the model call and then the
  publication of that message's payload to the topic if the message is a Failure or a
  Success with at least one item, and nothing more otherwise.
\<close>

theorem C5_publication:
  assumes "day_path env ev = Inr path"
    and "get_emails env (bucket_name env) path = Inr es"
    and "es \<noteq> []"
    and "template_render env es = Inr prompt"
    and "request_message (json_loads env) (messages_create env) prompt = Inr message"
  shows "snd (lambda_handler env ev) =
         [BuildPrompt, InvokeModel prompt] @
         (if \<not> success message \<or> emails message \<noteq> []
          then [Publish (topic_arn env) (json_dumps env (Message_asdict message))]
          else [])"
  using assms by (auto simp: lambda_handler_def send_to_topic_def Let_def)

lemma parse_isoformat_example:
  "parse_isoformat ''2024-01-02T03:04:05+09:00'' =
     Some \<lparr>year = 2024, month = 1, day = 2, hour = 3, minute = 4, second = 5,
           microsecond = 0, tzinfo = Timezone 32400000000, fold = 0\<rparr>"
  by (simp add: parse_isoformat_def take_digits_def digit_of_def parse_offset_def
      valid_fields_def days_in_month_def)

lemma day_path_example:
  "day_path (example_env objects table completion) \<lparr>path_override = None\<rparr> =
     Inr ''json/2024/1/2/''"
  by (simp add: day_path_def example_env_def path_str_def path_root_def path_parts_def
      str_nat.simps digit_char_def)

lemma get_emails_example:
  "get_emails (one_email_env completion) (bucket_name (one_email_env completion))
     ''json/2024/1/2/'' = Inr [example_email]"
  by (simp add: get_emails_def one_email_env_def example_env_def get_email_def loads_on_def example_email_text_def
      example_email_json_def example_email_def fromisoformat_def parse_isoformat_example)

text \<open>
  A day with one stored email: the completion \<open>{bad json\<close> is published as a Failure,
  and the completion \<open>]\<close> (an empty array, a Success with no item) is not published.
\<close>

theorem C5_publication_witness:
  "snd (lambda_handler (one_email_env ''{bad json'') \<lparr>path_override = None\<rparr>) =
     [BuildPrompt, InvokeModel ''prompt'', Publish ''topic'' ''payload''] \<and>
   snd (lambda_handler
          (example_env [(''json/2024/1/2/a.json'', example_email_text)]
             [(example_email_text, example_email_json), (''[]'', JArray [])] '']'')
          \<lparr>path_override = None\<rparr>) =
     [BuildPrompt, InvokeModel ''prompt'']"
proof -
  let ?ev = "\<lparr>path_override = None\<rparr>"
  let ?env = "one_email_env ''{bad json''"
  let ?env' = "example_env [(''json/2024/1/2/a.json'', example_email_text)]
                 [(example_email_text, example_email_json), (''[]'', JArray [])] '']''"
  have p: "day_path ?env ?ev = Inr ''json/2024/1/2/''"
    unfolding one_email_env_def by (rule day_path_example)
  have g: "get_emails ?env (bucket_name ?env) ''json/2024/1/2/'' = Inr [example_email]"
    by (rule get_emails_example)
  have n: "[example_email] \<noteq> []" by simp
  have t: "template_render ?env [example_email] = Inr ''prompt''"
    by (simp add: one_email_env_def example_env_def)
  have r: "request_message (json_loads ?env) (messages_create ?env) ''prompt'' =
           Inr \<lparr>success = False, emails = [],
                error = Some ''Failed to parse response: [{bad json''\<rparr>"
    by (simp add: one_email_env_def example_env_def request_message_def parse_summaries_def
        loads_on_def example_email_text_def)
  have p': "day_path ?env' ?ev = Inr ''json/2024/1/2/''"
    by (rule day_path_example)
  have g': "get_emails ?env' (bucket_name ?env') ''json/2024/1/2/'' = Inr [example_email]"
    by (simp add: get_emails_def example_env_def get_email_def loads_on_def example_email_text_def
        example_email_json_def example_email_def fromisoformat_def parse_isoformat_example)
  have t': "template_render ?env' [example_email] = Inr ''prompt''"
    by (simp add: example_env_def)
  have r': "request_message (json_loads ?env') (messages_create ?env') ''prompt'' =
            Inr \<lparr>success = True, emails = [], error = None\<rparr>"
    by (simp add: example_env_def request_message_def parse_summaries_def loads_on_def example_email_text_def)
  from C5_publication [OF p g n t r] C5_publication [OF p' g' n t' r']
  show ?thesis by (simp add: one_email_env_def example_env_def)
qed

section \<open>The empty day\<close>

text \<open>
  C1, on the code: when no object is stored under the day's prefix, the listing that S3
  returns has no \<open>Contents\<close> key, and \<open>get_emails\<close> reads that key unguarded: the
  handler ends with \<open>KeyError\<close>. No prompt is built, the model is not invoked and
  nothing is published, but the run is an error, not the no-op.
\<close>

theorem C1_empty_day_raises:
  assumes "day_path env ev = Inr path"
    and "s3_list_objects_v2 env (bucket_name env) path = Inr list_response"
    and "Contents list_response = None"
  shows "lambda_handler env ev = (Inl (KeyError ''Contents''), [])"
  using assms by (simp add: lambda_handler_def get_emails_def)

theorem C1_empty_day_raises_witness:
  "Contents \<lparr>KeyCount = 0, Contents = None\<rparr> = None \<and>
   lambda_handler (example_env [] [] []) \<lparr>path_override = None\<rparr> =
     (Inl (KeyError ''Contents''), [])"
proof -
  let ?env = "example_env [] [] []"
  have p: "day_path ?env \<lparr>path_override = None\<rparr> = Inr ''json/2024/1/2/''"
    by (rule day_path_example)
  have l: "s3_list_objects_v2 ?env (bucket_name ?env) ''json/2024/1/2/'' =
           Inr \<lparr>KeyCount = 0, Contents = None\<rparr>"
    by (simp add: example_env_def)
  have c: "Contents \<lparr>KeyCount = 0, Contents = None\<rparr> = None" by simp
  from C1_empty_day_raises [OF p l c] show ?thesis by simp
qed

text \<open>
  The guard \<open>if not emails: return\<close> is reached only by a listing that has the key
  with an empty list: then the run is the no-op.
\<close>

lemma handler_empty_contents:
  assumes "day_path env ev = Inr path"
    and "s3_list_objects_v2 env (bucket_name env) path = Inr list_response"
    and "Contents list_response = Some []"
  shows "lambda_handler env ev = (Inr (), [])"
  using assms by (simp add: lambda_handler_def get_emails_def)

section \<open>The renderer\<close>

lemma comprehension_total:
  "\<forall>x\<in>set xs. \<exists>y. f x = Inr y \<Longrightarrow>
   \<exists>ys. comprehension f xs = Inr ys \<and> length ys = length xs"
proof (induction xs)
  case Nil
  then show ?case by simp
next
  case (Cons x xs)
  then obtain y where "f x = Inr y" by auto
  moreover from Cons obtain ys where "comprehension f xs = Inr ys" "length ys = length xs"
    by auto
  ultimately show ?case by simp
qed

text \<open>
  C3, as stated, at a Success whose one item has the date \<open>n/a\<close>:
  \<open>datetime.fromisoformat\<close> refuses the text and \<open>generate_payload\<close> ends with its
  \<open>ValueError\<close>; no message is rendered.
\<close>

theorem C3_counterexample:
  "render refuse_other padded_strftime
     \<lparr>success = True,
      emails = [\<lparr>subject = ''Hello'', date = ''n/a'', from' = ''alice@example.com'',
                 summary = ''Greeting''\<rparr>],
      error = None\<rparr> = Inl (ValueError ''Invalid isoformat string'')"
  by (simp add: render_def generate_payload_def email_blocks_def fromisoformat_def)

text \<open>
  C3, amended: for every Failure with any reason, and for every Success whose items
  carry arbitrary strings in the subject, sender and summary fields and a date that
  \<open>datetime.fromisoformat\<close> reads, rendering returns a message.
\<close>

theorem C3_render_returns:
  assumes "success message \<Longrightarrow>
           \<forall>email\<in>set (emails message). \<exists>d. fromisoformat other (date email) = Inr d"
  shows "\<exists>payload. render other strftime message = Inr payload"
proof (cases "success message")
  case True
  with assms
  have "\<forall>email\<in>set (emails message). \<exists>bs. email_blocks other strftime email = Inr bs"
    by (auto simp: email_blocks_def)
  from comprehension_total [OF this] True show ?thesis
    by (auto simp: render_def generate_payload_def)
next
  case False
  then show ?thesis by (simp add: render_def)
qed

theorem C3_render_returns_witness:
  "(\<exists>payload.
      render refuse_other padded_strftime
        \<lparr>success = True,
         emails = [\<lparr>subject = ''Hello'', date = ''2024-01-02T03:04:05+09:00'',
                    from' = ''alice@example.com'', summary = ''Greeting''\<rparr>],
         error = None\<rparr> = Inr payload) \<and>
   (\<exists>payload.
      render refuse_other padded_strftime
        \<lparr>success = False, emails = [], error = Some ''boom''\<rparr> = Inr payload)"
proof -
  let ?m = "\<lparr>success = True,
         emails = [\<lparr>subject = ''Hello'', date = ''2024-01-02T03:04:05+09:00'',
                    from' = ''alice@example.com'', summary = ''Greeting''\<rparr>],
         error = None\<rparr> :: string Message"
  let ?f = "\<lparr>success = False, emails = [], error = Some ''boom''\<rparr> :: string Message"
  have "\<forall>email\<in>set (emails ?m). \<exists>d. fromisoformat refuse_other (date email) = Inr d"
    by (simp add: fromisoformat_def parse_isoformat_example)
  from C3_render_returns [of ?m refuse_other padded_strftime, OF this]
    C3_render_returns [of ?f refuse_other padded_strftime]
  show ?thesis by simp
qed

section \<open>The extractor\<close>

lemma example_raw:
  "s3_get_raw (example_parser_env m) (parser_bucket_name (example_parser_env m))
     (path_str (raw_email_path (example_parser_env m) @ ''/'' @ email_id)) = Inr []"
  by (simp add: example_parser_env_def)

lemma example_headers:
  "header (parsebytes (example_parser_env (dated d c)) []) ''subject'' = Inr None"
  "header (parsebytes (example_parser_env (dated d c)) []) ''from'' = Inr None"
  "header (parsebytes (example_parser_env (dated d c)) []) ''date'' = Inr d"
  by (simp_all add: example_parser_env_def dated_def)

lemma example_date_ok:
  "get_email_date (example_parser_env (dated (Some ''Tue, 02 Jan 2024 03:04:05 +0900'') c))
     (parsebytes (example_parser_env (dated (Some ''Tue, 02 Jan 2024 03:04:05 +0900'') c)) [])
     ''Asia/Tokyo'' = Inr (example_date\<lparr>tzinfo := ZoneInfo ''Asia/Tokyo''\<rparr>)"
  by (simp add: get_email_date_def parsedate_to_datetime_def astimezone_def
      example_parser_env_def dated_def)

lemma read_email_example:
  assumes "get_email_body (example_parser_env (dated (Some ''Tue, 02 Jan 2024 03:04:05 +0900'') c))
             (parsebytes (example_parser_env (dated (Some ''Tue, 02 Jan 2024 03:04:05 +0900'') c)) [])
           = r"
  shows "read_email (example_parser_env (dated (Some ''Tue, 02 Jan 2024 03:04:05 +0900'') c))
           ''id1'' ''Asia/Tokyo'' =
         (case r of
            Inl e \<Rightarrow> Inl e
          | Inr b \<Rightarrow>
              Inr \<lparr>Email.id = JString ''id1'', Email.subject = JNull, Email.from' = JNull,
                   Email.date = example_date\<lparr>tzinfo := ZoneInfo ''Asia/Tokyo''\<rparr>,
                   body = JString b\<rparr>)"
  unfolding read_email_def example_raw Let_def
  by (simp add: example_headers example_date_ok assms header_value_def split: sum.splits)

text \<open>
  C6, on the code: a multipart message with a well-formed date whose only part is
  \<open>text/html\<close> without a charset parameter. \<open>get_content_charset()\<close> is \<open>None\<close>,
  \<open>decode(None)\<close> raises \<open>TypeError\<close> and extraction returns no body. With the
  charset declared on each part, the same code returns the text of the last one.
\<close>

theorem C6_html_without_charset_raises:
  "read_email
     (example_parser_env
        (dated (Some ''Tue, 02 Jan 2024 03:04:05 +0900'')
           (Multipart [html_part None ''<p>A</p>''])))
     ''id1'' ''Asia/Tokyo'' = Inl TypeError \<and>
   read_email
     (example_parser_env
        (dated (Some ''Tue, 02 Jan 2024 03:04:05 +0900'')
           (Multipart [html_part (Some ''us-ascii'') ''<p>A</p>'',
                       html_part (Some ''us-ascii'') ''<b>B</b>''])))
     ''id1'' ''Asia/Tokyo'' =
     Inr \<lparr>Email.id = JString ''id1'', Email.subject = JNull, Email.from' = JNull,
          Email.date = example_date\<lparr>tzinfo := ZoneInfo ''Asia/Tokyo''\<rparr>,
          body = JString ''B''\<rparr>"
proof -
  let ?d = "Some ''Tue, 02 Jan 2024 03:04:05 +0900''"
  let ?c1 = "Multipart [html_part None ''<p>A</p>'']"
  let ?c2 = "Multipart [html_part (Some ''us-ascii'') ''<p>A</p>'',
                        html_part (Some ''us-ascii'') ''<b>B</b>'']"
  have b1: "get_email_body (example_parser_env (dated ?d ?c1))
              (parsebytes (example_parser_env (dated ?d ?c1)) []) = Inl TypeError"
    by (simp add: get_email_body_def decode_part_def html_part_def example_parser_env_def
        dated_def)
  have b2: "get_email_body (example_parser_env (dated ?d ?c2))
              (parsebytes (example_parser_env (dated ?d ?c2)) []) = Inr ''B''"
    by (simp add: get_email_body_def decode_part_def html_part_def example_parser_env_def
        dated_def ascii_decode_def strip_html_def)
  from read_email_example [OF b1] read_email_example [OF b2] show ?thesis by simp
qed

text \<open>
  C7, on the code: a message with a well-formed date whose body is \<open>text/plain\<close>
  without a charset parameter (what a message with no \<open>Content-Type\<close> header is),
  and a multipart message whose \<open>text/html\<close> part without a charset parameter comes
  before its \<open>text/plain\<close> part: both end with the \<open>TypeError\<close> of \<open>decode(None)\<close>.
  With the charsets declared, the \<open>text/plain\<close> part is the body whatever follows it.
\<close>

theorem C7_plain_without_charset_raises:
  "read_email
     (example_parser_env
        (dated (Some ''Tue, 02 Jan 2024 03:04:05 +0900'') (Singlepart (plain_part None ''C''))))
     ''id1'' ''Asia/Tokyo'' = Inl TypeError \<and>
   read_email
     (example_parser_env
        (dated (Some ''Tue, 02 Jan 2024 03:04:05 +0900'')
           (Multipart [html_part None ''<p>A</p>'', plain_part (Some ''us-ascii'') ''C''])))
     ''id1'' ''Asia/Tokyo'' = Inl TypeError \<and>
   read_email
     (example_parser_env
        (dated (Some ''Tue, 02 Jan 2024 03:04:05 +0900'')
           (Multipart [html_part (Some ''us-ascii'') ''<p>A</p>'',
                       plain_part (Some ''us-ascii'') ''C'',
                       html_part None ''<b>B</b>''])))
     ''id1'' ''Asia/Tokyo'' =
     Inr \<lparr>Email.id = JString ''id1'', Email.subject = JNull, Email.from' = JNull,
          Email.date = example_date\<lparr>tzinfo := ZoneInfo ''Asia/Tokyo''\<rparr>,
          body = JString ''C''\<rparr>"
proof -
  let ?d = "Some ''Tue, 02 Jan 2024 03:04:05 +0900''"
  let ?c1 = "Singlepart (plain_part None ''C'')"
  let ?c2 = "Multipart [html_part None ''<p>A</p>'', plain_part (Some ''us-ascii'') ''C'']"
  let ?c3 = "Multipart [html_part (Some ''us-ascii'') ''<p>A</p>'',
                        plain_part (Some ''us-ascii'') ''C'',
                        html_part None ''<b>B</b>'']"
  have b1: "get_email_body (example_parser_env (dated ?d ?c1))
              (parsebytes (example_parser_env (dated ?d ?c1)) []) = Inl TypeError"
    by (simp add: get_email_body_def decode_part_def plain_part_def example_parser_env_def
        dated_def)
  have b2: "get_email_body (example_parser_env (dated ?d ?c2))
              (parsebytes (example_parser_env (dated ?d ?c2)) []) = Inl TypeError"
    by (simp add: get_email_body_def decode_part_def html_part_def plain_part_def
        example_parser_env_def dated_def)
  have b3: "get_email_body (example_parser_env (dated ?d ?c3))
              (parsebytes (example_parser_env (dated ?d ?c3)) []) = Inr ''C''"
    by (simp add: get_email_body_def decode_part_def html_part_def plain_part_def
        example_parser_env_def dated_def ascii_decode_def strip_html_def)
  from read_email_example [OF b1] read_email_example [OF b2] read_email_example [OF b3]
  show ?thesis by simp
qed




section \<open>Writing a record and reading the day back\<close>

subsection \<open>The ISO text of a timestamp, read back\<close>

lemma digit_of_digit_char: "d < 10 \<Longrightarrow> digit_of (digit_char d) = Some d"
proof -
  assume "d < 10"
  then have "d \<in> {0, 1, 2, 3, 4, 5, 6, 7, 8, 9}" by auto
  then show ?thesis by (auto simp: digit_of_def digit_char_def)
qed

lemma digits_value_snoc:
  "digits_value (cs @ [c]) =
     (case digits_value cs of
        None \<Rightarrow> None
      | Some v \<Rightarrow> (case digit_of c of None \<Rightarrow> None | Some d \<Rightarrow> Some (v * 10 + d)))"
  by (induction cs) (auto split: option.splits simp: algebra_simps)

lemma digits_value_str_nat: "digits_value (str_nat n) = Some n"
proof (induction n rule: str_nat.induct)
  case (1 n)
  show ?case
  proof (cases "n < 10")
    case True
    then show ?thesis by (subst str_nat.simps) (simp add: digit_of_digit_char)
  next
    case False
    with 1 have "digits_value (str_nat (n div 10)) = Some (n div 10)" by simp
    with False show ?thesis
      by (subst str_nat.simps) (simp add: digits_value_snoc digit_of_digit_char)
  qed
qed

lemma digits_value_zeros: "digits_value (replicate k CHR ''0'' @ s) = digits_value s"
  by (induction k) (simp_all add: digit_of_def split: option.splits)

lemma length_str_nat: "0 < w \<Longrightarrow> n < 10 ^ w \<Longrightarrow> length (str_nat n) \<le> w"
proof (induction n arbitrary: w rule: str_nat.induct)
  case (1 n)
  show ?case
  proof (cases "n < 10")
    case True
    with 1(2) show ?thesis by (subst str_nat.simps) simp
  next
    case False
    have "1 < w"
    proof (rule ccontr)
      assume "\<not> 1 < w"
      with 1(2) have "w = 1" by simp
      with 1(3) False show False by simp
    qed
    then obtain v where w: "w = Suc v" "0 < v" by (cases w) auto
    with 1(3) have "n div 10 < 10 ^ v" by (simp add: less_mult_imp_div_less mult.commute)
    with 1(1) [OF False w(2)] have "length (str_nat (n div 10)) \<le> v" by simp
    with False w show ?thesis by (subst str_nat.simps) simp
  qed
qed

lemma str_nat_nonempty: "str_nat n \<noteq> []"
  by (subst str_nat.simps) simp

lemma length_zero_pad: "0 < w \<Longrightarrow> n < 10 ^ w \<Longrightarrow> length (zero_pad w n) = w"
  using length_str_nat [of w n] by (simp add: zero_pad_def)

lemma take_digits_zero_pad:
  "0 < w \<Longrightarrow> n < 10 ^ w \<Longrightarrow> take_digits w (zero_pad w n @ rest) = Some (n, rest)"
  using length_zero_pad [of w n]
  by (simp add: take_digits_def) (simp add: zero_pad_def digits_value_zeros digits_value_str_nat)

lemma take2: "n < 100 \<Longrightarrow> take_digits 2 (zero_pad 2 n @ rest) = Some (n, rest)"
  by (rule take_digits_zero_pad) simp_all

lemma take4: "n < 10000 \<Longrightarrow> take_digits 4 (zero_pad 4 n @ rest) = Some (n, rest)"
  by (rule take_digits_zero_pad) simp_all

lemma take6: "n < 1000000 \<Longrightarrow> take_digits 6 (zero_pad 6 n @ rest) = Some (n, rest)"
  by (rule take_digits_zero_pad) simp_all

lemma take2_end: "n < 100 \<Longrightarrow> take_digits 2 (zero_pad 2 n) = Some (n, [])"
  using take2 [of n "[]"] by simp

lemma take6_end: "n < 1000000 \<Longrightarrow> take_digits 6 (zero_pad 6 n) = Some (n, [])"
  using take6 [of n "[]"] by simp

lemma parse_offset_none: "parse_offset (format_offset None) = Some NoTz"
  by (simp add: parse_offset_def format_offset_def)

lemma offset_parts:
  fixes t :: int
  assumes "\<bar>t\<bar> < 86400000000"
  defines "hh \<equiv> nat (\<bar>t\<bar> div 3600000000)"
    and "mm \<equiv> nat (\<bar>t\<bar> mod 3600000000 div 60000000)"
    and "ss \<equiv> nat (\<bar>t\<bar> mod 60000000 div 1000000)"
    and "us \<equiv> nat (\<bar>t\<bar> mod 1000000)"
  shows "hh < 24 \<and> mm < 60 \<and> ss < 60 \<and> us < 1000000 \<and>
         ((int hh * 60 + int mm) * 60 + int ss) * 1000000 + int us = \<bar>t\<bar>"
proof -
  define a where "a = \<bar>t\<bar>"
  define q1 where "q1 = a div 3600000000"
  define r1 where "r1 = a mod 3600000000"
  define q2 where "q2 = r1 div 60000000"
  define r2 where "r2 = r1 mod 60000000"
  define q3 where "q3 = r2 div 1000000"
  define r3 where "r3 = r2 mod 1000000"
  have a: "0 \<le> a" "a < 86400000000" using assms(1) by (simp_all add: a_def)
  have e1: "a = q1 * 3600000000 + r1" by (simp add: q1_def r1_def)
  have b1: "0 \<le> r1" "r1 < 3600000000" by (simp_all add: r1_def)
  have e2: "r1 = q2 * 60000000 + r2" by (simp add: q2_def r2_def)
  have b2: "0 \<le> r2" "r2 < 60000000" by (simp_all add: r2_def)
  have e3: "r2 = q3 * 1000000 + r3" by (simp add: q3_def r3_def)
  have b3: "0 \<le> r3" "r3 < 1000000" by (simp_all add: r3_def)
  have r2': "r2 = a mod 60000000"
    unfolding r2_def r1_def by (rule mod_mod_cancel) simp
  have r3': "r3 = a mod 1000000"
    unfolding r3_def r2' by (rule mod_mod_cancel) simp
  have q1: "0 \<le> q1" "q1 < 24" using a e1 b1 by linarith+
  have q2: "0 \<le> q2" "q2 < 60" using e2 b1 b2 by linarith+
  have q3: "0 \<le> q3" "q3 < 60" using e3 b2 b3 by linarith+
  have hh: "int hh = q1" using q1 by (simp add: hh_def q1_def a_def)
  have mm: "int mm = q2" using q2 by (simp add: mm_def q2_def r1_def a_def)
  have ss: "int ss = q3" using q3 by (simp add: ss_def q3_def r2' a_def)
  have us: "int us = r3" using b3 by (simp add: us_def r3' a_def)
  have "((q1 * 60 + q2) * 60 + q3) * 1000000 + r3 = a"
    by (subst e1, subst e2, subst e3) (simp add: algebra_simps)
  moreover have "hh < 24" "mm < 60" "ss < 60" "us < 1000000"
    using q1 q2 q3 b3 hh mm ss us by linarith+
  ultimately show ?thesis using hh mm ss us by (simp add: a_def)
qed

lemma parse_offset_shape:
  assumes "hh < 24" and "mm < 60" and "ss < 60" and "us < 1000000"
    and "c = CHR ''+'' \<or> c = CHR ''-''"
  shows "parse_offset
           (c # zero_pad 2 hh @ CHR '':'' # zero_pad 2 mm @
              (if ss \<noteq> 0 \<or> us \<noteq> 0
               then CHR '':'' # zero_pad 2 ss @
                    (if us \<noteq> 0 then CHR ''.'' # zero_pad 6 us @ [] else [])
               else [])) =
         Some (Timezone
                (if (hh * 60 + mm) * 60 + ss = 0 then 0
                 else (if c = CHR ''-'' then - 1 else 1) *
                      (((int hh * 60 + int mm) * 60 + int ss) * 1000000 + int us)))"
proof -
  from assms have b': "hh < 100" "mm < 100" "ss < 100" by simp_all
  have z: "\<And>w n. zero_pad w n \<noteq> []" by (simp add: zero_pad_def str_nat_nonempty)
  show ?thesis
  proof (cases "ss \<noteq> 0 \<or> us \<noteq> 0")
    case False
    then have "ss = 0" "us = 0" by simp_all
    with assms(5) show ?thesis
      unfolding parse_offset_def by (auto simp: take2 take2_end assms(1-4) b')
  next
    case True
    show ?thesis
    proof (cases "us = 0")
      case True
      with \<open>ss \<noteq> 0 \<or> us \<noteq> 0\<close> have "ss \<noteq> 0" by simp
      with True assms(5) show ?thesis
        unfolding parse_offset_def by (auto simp: take2 take2_end assms(1-4) b' z)
    next
      case False
      with assms(5) show ?thesis
        unfolding parse_offset_def by (auto simp: take2 take6_end assms(1-4) b' z)
    qed
  qed
qed

lemma parse_offset_format:
  assumes "\<bar>t\<bar> < 86400000000" and "t = 0 \<or> 1000000 \<le> \<bar>t\<bar>"
  shows "parse_offset (format_offset (Some t)) = Some (Timezone t)"
proof -
  define hh where "hh = nat (\<bar>t\<bar> div 3600000000)"
  define mm where "mm = nat (\<bar>t\<bar> mod 3600000000 div 60000000)"
  define ss where "ss = nat (\<bar>t\<bar> mod 60000000 div 1000000)"
  define us where "us = nat (\<bar>t\<bar> mod 1000000)"
  from offset_parts [OF assms(1)]
  have b: "hh < 24" "mm < 60" "ss < 60" "us < 1000000"
    and v: "((int hh * 60 + int mm) * 60 + int ss) * 1000000 + int us = \<bar>t\<bar>"
    by (simp_all add: hh_def mm_def ss_def us_def)
  have f: "format_offset (Some t) =
      (if t < 0 then CHR ''-'' else CHR ''+'') # zero_pad 2 hh @ CHR '':'' # zero_pad 2 mm @
         (if ss \<noteq> 0 \<or> us \<noteq> 0
          then CHR '':'' # zero_pad 2 ss @ (if us \<noteq> 0 then CHR ''.'' # zero_pad 6 us @ [] else [])
          else [])"
    by (simp add: format_offset_def Let_def hh_def mm_def ss_def us_def)
  have sgn: "(if t < 0 then - 1 else 1) * \<bar>t\<bar> = t" by simp
  have whole: "((hh * 60 + mm) * 60 + ss = 0) = (t = 0)"
  proof (cases "t = 0")
    case True
    with v have "((int hh * 60 + int mm) * 60 + int ss) * 1000000 + int us = 0" by simp
    then have "int ((hh * 60 + mm) * 60 + ss) * 1000000 + int us = 0" by simp
    then have "((hh * 60 + mm) * 60 + ss) * 1000000 + us = 0" by linarith
    with True show ?thesis by simp
  next
    case False
    with assms(2) have "1000000 \<le> \<bar>t\<bar>" by simp
    with v b(4) have "1000000 \<le> int ((hh * 60 + mm) * 60 + ss) * 1000000 + int us" by simp
    with b(4) have "(hh * 60 + mm) * 60 + ss \<noteq> 0" by (cases "(hh * 60 + mm) * 60 + ss = 0") simp_all
    with False show ?thesis by simp
  qed
  have res': "(if (hh * 60 + mm) * 60 + ss = 0 then 0
              else (if (if t < 0 then CHR ''-'' else CHR ''+'') = CHR ''-'' then - 1 else 1) *
                   (((int hh * 60 + int mm) * 60 + int ss) * 1000000 + int us)) = t"
  proof (cases "t = 0")
    case True
    with whole have "(hh * 60 + mm) * 60 + ss = 0" by simp
    then have "(if (hh * 60 + mm) * 60 + ss = 0 then 0
              else (if (if t < 0 then CHR ''-'' else CHR ''+'') = CHR ''-'' then - 1 else 1) *
                   (((int hh * 60 + int mm) * 60 + int ss) * 1000000 + int us)) = 0"
      by (simp only: refl if_True)
    with True show ?thesis by simp
  next
    case False
    with whole have n: "(hh * 60 + mm) * 60 + ss \<noteq> 0" by simp
    have c: "(if (if t < 0 then CHR ''-'' else CHR ''+'') = CHR ''-'' then - 1 else 1) =
             (if t < 0 then - 1 else (1::int))" by simp
    have "(if (hh * 60 + mm) * 60 + ss = 0 then 0
              else (if (if t < 0 then CHR ''-'' else CHR ''+'') = CHR ''-'' then - 1 else 1) *
                   (((int hh * 60 + int mm) * 60 + int ss) * 1000000 + int us)) =
          (if t < 0 then - 1 else 1) * \<bar>t\<bar>"
      using n by (simp only: if_False c v)
    with sgn show ?thesis by (simp only:)
  qed
  have s: "(if t < 0 then CHR ''-'' else CHR ''+'') = CHR ''+'' \<or>
           (if t < 0 then CHR ''-'' else CHR ''+'') = CHR ''-''" by simp
  have "parse_offset (format_offset (Some t)) =
        Some (Timezone
                (if (hh * 60 + mm) * 60 + ss = 0 then 0
                 else (if (if t < 0 then CHR ''-'' else CHR ''+'') = CHR ''-'' then - 1 else 1) *
                      (((int hh * 60 + int mm) * 60 + int ss) * 1000000 + int us)))"
    unfolding f by (rule parse_offset_shape [OF b s])
  then show ?thesis by (simp only: res')
qed

lemma expect_dot_offset: "expect CHR ''.'' (format_offset off) = None"
  by (cases off) (simp_all add: format_offset_def Let_def)

lemma parse_offset_utcoffset:
  "offset_in_range zones d \<Longrightarrow>
   parse_offset (format_offset (utcoffset zones d)) =
     Some (case utcoffset zones d of None \<Rightarrow> NoTz | Some t \<Rightarrow> Timezone t)"
  by (cases "utcoffset zones d")
    (auto simp: offset_in_range_def parse_offset_none parse_offset_format)

lemma parse_isoformat_round_trip:
  assumes "valid_fields d" and "offset_in_range zones d"
  shows "parse_isoformat (isoformat zones d) = Some (fixed_offset zones d)"
proof -
  from assms(1) have b: "year d < 10000" "month d < 100" "day d < 100" "hour d < 100"
    "minute d < 100" "second d < 100" "microsecond d < 1000000"
    by (auto simp: valid_fields_def days_in_month_def split: if_splits)
  have v: "valid_fields \<lparr>year = year d, month = month d, day = day d, hour = hour d,
             minute = minute d, second = second d, microsecond = us,
             tzinfo = tz, fold = 0\<rparr>" if "us = microsecond d" for tz us
    using assms(1) that by (simp add: valid_fields_def)
  have r: "\<lparr>year = year d, month = month d, day = day d, hour = hour d,
             minute = minute d, second = second d, microsecond = us,
             tzinfo = tz, fold = 0\<rparr> = d\<lparr>tzinfo := tz, fold := 0\<rparr>" if "us = microsecond d" for tz us
    using that by (cases d) simp
  have v': "valid_fields (d\<lparr>tzinfo := tz, fold := 0\<rparr>)" for tz
    using assms(1) by (simp add: valid_fields_def)
  show ?thesis
  proof (cases "microsecond d = 0")
    case True
    then have z: "0 = microsecond d" by simp
    from True show ?thesis
      unfolding isoformat_def parse_isoformat_def
      by (simp add: take2 take4 b expect_dot_offset parse_offset_utcoffset [OF assms(2)]
          fixed_offset_def Let_def v [OF z] r [OF z] v')
  next
    case False
    then show ?thesis
      unfolding isoformat_def parse_isoformat_def
      by (simp add: take2 take4 take6 b parse_offset_utcoffset [OF assms(2)] v r v'
          fixed_offset_def Let_def)
  qed
qed

lemma length_zero_pad_ge: "w \<le> length (zero_pad w n)"
  by (simp add: zero_pad_def)

lemma length_isoformat: "7 \<le> length (isoformat zones d)"
  using length_zero_pad_ge [of 4 "year d"] length_zero_pad_ge [of 2 "month d"]
  by (simp add: isoformat_def)

lemma fromisoformat_isoformat:
  assumes "valid_fields d" and "offset_in_range zones d"
  shows "fromisoformat other (isoformat zones d) = Inr (fixed_offset zones d)"
  using length_isoformat [of zones d] parse_isoformat_round_trip [OF assms]
  by (simp add: fromisoformat_def)

subsection \<open>The key of a record lies under its day\<close>

lemma split_on_nonempty: "split_on c s \<noteq> []"
  by (induction s) (auto split: list.splits)

lemma split_on_append: "split_on c (a @ c # b) = split_on c a @ split_on c b"
proof (induction a)
  case Nil
  then show ?case by simp
next
  case (Cons x a)
  then show ?case
    using split_on_nonempty [of c a] by (auto split: list.splits)
qed

lemma split_on_no_sep: "c \<notin> set s \<Longrightarrow> split_on c s = [s]"
  by (induction s) (auto split: list.splits)

lemma last_split_on_append:
  "c \<notin> set t \<Longrightarrow> \<exists>p. last (split_on c (x @ t)) = p @ t"
proof (induction x)
  case Nil
  then show ?case by (simp add: split_on_no_sep)
next
  case (Cons y x)
  then obtain p where p: "last (split_on c (x @ t)) = p @ t" by blast
  obtain q qs where s: "split_on c (x @ t) = q # qs"
    using split_on_nonempty [of c "x @ t"] by (cases "split_on c (x @ t)") auto
  show ?case
  proof (cases "y = c")
    case True
    with p s show ?thesis by simp
  next
    case False
    show ?thesis
    proof (cases "qs = []")
      case True
      with p s have "q = p @ t" by simp
      with False s True show ?thesis by simp
    next
      case qs: False
      with p s have "last qs = p @ t" by simp
      with False s qs show ?thesis by simp
    qed
  qed
qed

lemma path_parts_append: "path_parts (a @ ''/'' @ b) = path_parts a @ path_parts b"
  by (simp add: path_parts_def split_on_append)

lemma digit_char_in: "d < 10 \<Longrightarrow> digit_char d \<in> set ''0123456789''"
  unfolding digit_char_def by (rule nth_mem) simp

lemma set_str_nat: "set (str_nat n) \<subseteq> set ''0123456789''"
proof (induction n rule: str_nat.induct)
  case (1 n)
  show ?case
  proof (cases "n < 10")
    case True
    with digit_char_in [of n] show ?thesis by (subst str_nat.simps) simp
  next
    case False
    with 1 digit_char_in [of "n mod 10"] show ?thesis by (subst str_nat.simps) simp
  qed
qed

lemma path_parts_str_nat: "path_parts (str_nat n) = [str_nat n]"
proof -
  from set_str_nat [of n] have "CHR ''/'' \<notin> set (str_nat n)" "CHR ''.'' \<notin> set (str_nat n)"
    by auto
  then show ?thesis
    using str_nat_nonempty [of n] by (auto simp: path_parts_def split_on_no_sep)
qed

lemma path_parts_json: "path_parts (x @ ''.json'') \<noteq> []"
proof -
  let ?s = "split_on CHR ''/'' (x @ ''.json'')"
  obtain p where "last ?s = p @ ''.json''"
    using last_split_on_append [of "CHR ''/''" "''.json''" x] by auto
  then have "last ?s \<noteq> [] \<and> last ?s \<noteq> ''.''" by simp
  moreover have "last ?s \<in> set ?s"
    using split_on_nonempty by (rule last_in_set)
  ultimately have "\<exists>p\<in>set ?s. p \<noteq> [] \<and> p \<noteq> ''.''" by blast
  then show ?thesis by (simp add: path_parts_def filter_empty_conv)
qed

lemma join_with_append:
  "xs \<noteq> [] \<Longrightarrow> ys \<noteq> [] \<Longrightarrow> join_with c (xs @ ys) = join_with c xs @ c # join_with c ys"
proof (induction xs rule: join_with.induct)
  case (1 c)
  then show ?case by simp
next
  case (2 c p)
  then show ?case by (cases ys) simp_all
next
  case (3 c p q ps)
  then show ?case by simp
qed

lemma path_root_append: "3 \<le> length a \<Longrightarrow> path_root (a @ b) = path_root a"
  by (simp add: path_root_def)

lemma path_str_parts: "path_parts s \<noteq> [] \<Longrightarrow> path_str s = path_root s @ join_with CHR ''/'' (path_parts s)"
  by (simp add: path_str_def)

lemma path_str_under:
  assumes "3 \<le> length a" and "path_parts a \<noteq> []"
  shows "path_str (a @ ''/'' @ x @ ''.json'') =
         path_str a @ ''/'' @ join_with CHR ''/'' (path_parts (x @ ''.json''))"
proof -
  have "path_parts (a @ ''/'' @ x @ ''.json'') = path_parts a @ path_parts (x @ ''.json'')"
    by (rule path_parts_append)
  moreover have "path_root (a @ ''/'' @ x @ ''.json'') = path_root a"
    using assms(1) by (rule path_root_append)
  ultimately show ?thesis
    using assms(2) path_parts_json [of x]
    by (simp add: path_str_def join_with_append)
qed

lemma day_dir_parts: "path_parts (day_dir base d) \<noteq> []" "3 \<le> length (day_dir base d)"
proof -
  have "path_parts (day_dir base d) =
        path_parts base @ [str_nat (year d), str_nat (month d), str_nat (day d)]"
    unfolding day_dir_def by (simp only: path_parts_append path_parts_str_nat) simp
  then show "path_parts (day_dir base d) \<noteq> []" by simp
  show "3 \<le> length (day_dir base d)"
    using str_nat_nonempty [of "year d"] str_nat_nonempty [of "month d"]
    by (cases "str_nat (year d)"; cases "str_nat (month d)") (simp_all add: day_dir_def)
qed

lemma email_key_under_day:
  "email_key penv email =
     path_str (day_dir (parser_json_email_path penv) (Email.date email)) @ ''/'' @
     join_with CHR ''/'' (path_parts (format_value penv (Email.id email) @ ''.json''))"
proof -
  have "email_key penv email =
        path_str (day_dir (parser_json_email_path penv) (Email.date email) @ ''/'' @
                  format_value penv (Email.id email) @ ''.json'')"
    by (simp add: email_key_def day_dir_def)
  also have "\<dots> = path_str (day_dir (parser_json_email_path penv) (Email.date email)) @ ''/'' @
     join_with CHR ''/'' (path_parts (format_value penv (Email.id email) @ ''.json''))"
    by (rule path_str_under [OF day_dir_parts(2) day_dir_parts(1)])
  finally show ?thesis .
qed

subsection \<open>The bucket after a put\<close>

lemma comprehension_member:
  "comprehension f xs = Inr ys \<Longrightarrow> x \<in> set xs \<Longrightarrow> f x = Inr y \<Longrightarrow> y \<in> set ys"
proof (induction xs arbitrary: ys)
  case Nil
  then show ?case by simp
next
  case (Cons a xs)
  then show ?case by (auto split: sum.splits)
qed

lemma comprehension_constant:
  "\<forall>x\<in>set xs. f x = Inr y \<Longrightarrow> comprehension f xs = Inr (replicate (length xs) y)"
  by (induction xs) simp_all

lemma get_body_put: "get_body (put_object objs key doc) key = Inr doc"
  by (simp add: get_body_def put_object_def)

lemma map_of_filter_other:
  "k \<noteq> key \<Longrightarrow> map_of (filter (\<lambda>kv. fst kv \<noteq> key) objs) k = map_of objs k"
  by (induction objs) auto

lemma get_body_put_other:
  "k \<noteq> key \<Longrightarrow> get_body (put_object objs key doc) k = get_body objs k"
  by (simp add: get_body_def put_object_def map_of_filter_other)

lemma length_prefixed_filter:
  "length (filter P (map fst (filter Q objs))) \<le> length (filter P (map fst objs))"
  by (induction objs) auto

lemma prefixed_put:
  assumes "has_prefix p key"
  shows "filter (has_prefix p) (map fst (put_object objs key doc)) =
         key # filter (has_prefix p) (map fst (filter (\<lambda>kv. fst kv \<noteq> key) objs))"
  using assms by (simp add: put_object_def)

lemma list_page_put:
  assumes "has_prefix p key" and "length (filter (has_prefix p) (map fst objs)) < 1000"
  shows "\<exists>ks. Contents (list_page (put_object objs key doc) p) = Some ks \<and> key \<in> set ks \<and>
              set ks \<subseteq> insert key {k \<in> fst ` set objs. has_prefix p k \<and> k \<noteq> key}"
proof -
  let ?ks = "filter (has_prefix p) (map fst (put_object objs key doc))"
  have e: "?ks = key # filter (has_prefix p) (map fst (filter (\<lambda>kv. fst kv \<noteq> key) objs))"
    using assms(1) by (rule prefixed_put)
  have "length ?ks \<le> 1000"
    unfolding e
    using length_prefixed_filter [of "has_prefix p" "\<lambda>kv. fst kv \<noteq> key" objs] assms(2)
    by simp
  then have t: "take 1000 (sort ?ks) = sort ?ks" by simp
  have "set (sort ?ks) \<noteq> {}" unfolding e by (simp del: sort_key_simps)
  then have n: "sort ?ks \<noteq> []" by (simp only: set_empty not_False_eq_True)
  have c: "Contents (list_page (put_object objs key doc) p) = Some (sort ?ks)"
    using n by (simp add: list_page_def Let_def t del: sort_key_simps)
  have "key \<in> set (sort ?ks)" unfolding e by (simp del: sort_key_simps)
  moreover have "set (sort ?ks) \<subseteq> insert key {k \<in> fst ` set objs. has_prefix p k \<and> k \<noteq> key}"
    unfolding e by (auto simp del: sort_key_simps)
  ultimately show ?thesis using c by blast
qed

subsection \<open>The round trip\<close>

lemma day_path_yesterday:
  assumes "yesterday env = Inr target"
  shows "day_path env \<lparr>path_override = None\<rparr> =
         Inr (path_str (day_dir (json_email_path env) target) @ ''/'')"
  using assms by (simp add: day_path_def day_dir_def)

lemma get_email_written:
  assumes "valid_fields (Email.date r)" and "offset_in_range (tzdb penv) (Email.date r)"
    and "s3_get_object env bucket key = Inr (parser_json_dumps penv (email_document penv r))"
    and "json_loads env (parser_json_dumps penv (email_document penv r)) =
         Inr (email_document penv r)"
  shows "get_email env bucket key =
         Inr (r\<lparr>Email.date := fixed_offset (tzdb penv) (Email.date r)\<rparr>)"
proof -
  have "fromisoformat_value (fromisoformat_other env)
          (JString (isoformat (tzdb penv) (Email.date r))) =
        Inr (fixed_offset (tzdb penv) (Email.date r))"
    using fromisoformat_isoformat [OF assms(1,2)] by simp
  with assms(3,4) show ?thesis
    by (cases r) (simp add: get_email_def email_document_def)
qed

lemma write_email_bucket:
  assumes "write_email penv objs r = (Inr (), objs')"
  shows "objs' = put_object objs (email_key penv r)
                   (parser_json_dumps penv (email_document penv r))"
  using assms by (auto simp: write_email_def Let_def split: sum.splits)

lemma get_email_example:
  assumes "get_body objs key = Inr example_email_text"
  shows "get_email (bucket_env objs [(example_email_text, example_email_json)]) ''bucket'' key =
         Inr example_email"
  using assms
  by (simp add: get_email_def bucket_env_def example_env_def loads_on_def example_email_json_def
      example_email_def fromisoformat_def parse_isoformat_example)

lemma tokyo_document:
  "email_document (writer_env (\<lambda>key d. 32400000000) example_email_text) tokyo_email =
     example_email_json"
  by (simp add: email_document_def writer_env_def tokyo_email_def example_email_def
      example_email_json_def isoformat_def example_date_def utcoffset_def format_offset_def
      zero_pad_def str_nat.simps digit_char_def)

lemma tokyo_key:
  "email_key (writer_env (\<lambda>key d. 32400000000) example_email_text) tokyo_email =
     ''json/2024/1/2/a.json''"
  by (simp add: email_key_def writer_env_def example_parser_env_def tokyo_email_def
      example_email_def example_date_def format_value_def path_str_def path_root_def
      path_parts_def str_nat.simps digit_char_def)

lemma tokyo_fixed:
  "tokyo_email\<lparr>Email.date := fixed_offset (\<lambda>key d. 32400000000) (Email.date tokyo_email)\<rparr> =
     example_email"
  by (simp add: tokyo_email_def example_email_def example_date_def fixed_offset_def
      utcoffset_def)

lemma writer_env_put:
  "s3_put_object (writer_env zones written) b k t = Inr ()"
  "parser_json_dumps (writer_env zones written) v = written"
  "tzdb (writer_env zones written) = zones"
  "parser_json_email_path (writer_env zones written) = ''json''"
  by (simp_all add: writer_env_def example_parser_env_def)

lemma bucket_env_reads: "reads_bucket (bucket_env objs table) objs"
  by (simp add: reads_bucket_def bucket_env_def example_env_def)

lemma bucket_env_fields:
  "bucket_name (bucket_env objs table) = ''bucket''"
  "json_email_path (bucket_env objs table) = ''json''"
  "json_loads (bucket_env objs table) = loads_on table"
  "yesterday (bucket_env objs table) =
     Inr \<lparr>year = 2024, month = 1, day = 2, hour = 9, minute = 0, second = 0,
          microsecond = 0, tzinfo = ZoneInfo ''Asia/Tokyo'', fold = 0\<rparr>"
  "day_path (bucket_env objs table) \<lparr>path_override = None\<rparr> = Inr ''json/2024/1/2/''"
  by (simp_all add: bucket_env_def example_env_def day_path_def path_str_def path_root_def
      path_parts_def str_nat.simps digit_char_def)

subsection \<open>A listing is one page\<close>

lemma less_common_prefix:
  fixes a b :: char
  shows "a < b \<Longrightarrow> p @ a # u < p @ b # v"
  by (induction p) simp_all

lemma insort_last:
  fixes x :: "'a::linorder"
  shows "\<forall>y\<in>set ys. y < x \<Longrightarrow> insort x ys = ys @ [x]"
  by (induction ys) auto

lemma sort_last:
  fixes x :: "'a::linorder"
  assumes "\<forall>y\<in>set ys. y < x"
  shows "sort (x # ys) = sort ys @ [x]"
proof -
  have "\<forall>y\<in>set (sort ys). y < x" using assms by simp
  then have "insort x (sort ys) = sort ys @ [x]" by (rule insort_last)
  then show ?thesis by simp
qed

lemma map_of_constant:
  "n \<in> set ns \<Longrightarrow> map_of (map (\<lambda>n. (f n, c)) ns) (f n) = Some c"
  by (induction ns) auto

lemma page_full:
  assumes "length ns = 1000"
  shows "Contents (list_page ((p @ CHR ''b'' # u, d) # map (\<lambda>n. (p @ CHR ''a'' # g n, c)) ns) p) =
         Some (sort (map (\<lambda>n. p @ CHR ''a'' # g n) ns))"
proof -
  let ?ks = "map (\<lambda>n. p @ CHR ''a'' # g n) ns"
  have f: "filter (has_prefix p)
             (map fst ((p @ CHR ''b'' # u, d) # map (\<lambda>n. (p @ CHR ''a'' # g n, c)) ns)) =
           (p @ CHR ''b'' # u) # ?ks"
    by (simp add: has_prefix_def comp_def)
  have "\<forall>y\<in>set ?ks. y < p @ CHR ''b'' # u"
    by (auto intro: less_common_prefix)
  then have s: "sort ((p @ CHR ''b'' # u) # ?ks) = sort ?ks @ [p @ CHR ''b'' # u]"
    by (rule sort_last)
  have l: "length (sort ?ks) = 1000" using assms by simp
  then have t: "take 1000 (sort ?ks @ [p @ CHR ''b'' # u]) = sort ?ks" by simp
  have n: "sort ?ks \<noteq> []"
  proof
    assume "sort ?ks = []"
    then have "length (sort ?ks) = 0" by (simp only: list.size)
    with l show False by simp
  qed
  show ?thesis
    unfolding list_page_def f s t Let_def using n by simp
qed

lemma get_body_full:
  assumes "k \<in> set (sort (map (\<lambda>n. p @ CHR ''a'' # g n) ns))"
  shows "get_body ((p @ CHR ''b'' # u, d) # map (\<lambda>n. (p @ CHR ''a'' # g n, c)) ns) k = Inr c"
proof -
  from assms obtain n where n: "n \<in> set ns" "k = p @ CHR ''a'' # g n" by auto
  then have "k \<noteq> p @ CHR ''b'' # u" by simp
  moreover have "map_of (map (\<lambda>n. (p @ CHR ''a'' # g n, c)) ns) k = Some c"
    unfolding n(2) using n(1) by (rule map_of_constant)
  ultimately show ?thesis by (simp add: get_body_def)
qed

lemma put_beside:
  "put_object (map (\<lambda>n. (p @ CHR ''a'' # g n, c)) ns) (p @ CHR ''b'' # u) d =
     (p @ CHR ''b'' # u, d) # map (\<lambda>n. (p @ CHR ''a'' # g n, c)) ns"
  by (simp add: put_object_def filter_id_conv)

lemma thousand_objects_shape:
  "thousand_objects =
     map (\<lambda>n. (''json/2023/11/5/'' @ CHR ''a'' # (str_nat n @ ''.json''), example_email_text))
       [0..<1000]"
  by (simp add: thousand_objects_def)

lemma fall_back_document:
  "email_document (writer_env fall_back_zone fall_back_text) fall_back_email = fall_back_json"
  by (simp add: email_document_def writer_env_def fall_back_email_def fall_back_json_def
      isoformat_def fall_back_date_def utcoffset_def fall_back_zone_def format_offset_def
      zero_pad_def str_nat.simps digit_char_def)

lemma fall_back_key:
  "email_key (writer_env fall_back_zone fall_back_text) fall_back_email =
     ''json/2023/11/5/'' @ CHR ''b'' # ''.json''"
  by (simp add: email_key_def writer_env_def example_parser_env_def fall_back_email_def
      fall_back_date_def format_value_def path_str_def path_root_def path_parts_def
      str_nat.simps digit_char_def)

lemma parse_fall_back:
  "parse_isoformat ''2023-11-05T01:30:00-04:00'' =
     Some (fall_back_date\<lparr>tzinfo := Timezone (- 14400000000)\<rparr>)"
  by (simp add: parse_isoformat_def take_digits_def digit_of_def parse_offset_def
      valid_fields_def days_in_month_def fall_back_date_def)

lemma write_fall_back:
  "write_email (writer_env fall_back_zone fall_back_text) objs fall_back_email =
     (Inr (), put_object objs (''json/2023/11/5/'' @ CHR ''b'' # ''.json'') fall_back_text)"
  by (simp only: write_email_def Let_def fall_back_key writer_env_put sum.case)

lemma repeated_hour_read_back:
  "get_emails
     (bucket_env [(''json/2023/11/5/b.json'', fall_back_text)] [(fall_back_text, fall_back_json)])
     ''bucket'' ''json/2023/11/5/'' =
     Inr [fall_back_email\<lparr>Email.date :=
            fall_back_date\<lparr>tzinfo := Timezone (- 14400000000)\<rparr>\<rparr>]"
  by (simp add: get_emails_def bucket_env_def example_env_def list_page_def has_prefix_def
      get_body_def get_email_def loads_on_def fall_back_json_def fromisoformat_def
      parse_fall_back fall_back_email_def)

lemma full_page_read_back:
  "get_emails
     (bucket_env ((''json/2023/11/5/b.json'', fall_back_text) # thousand_objects)
        [(example_email_text, example_email_json)])
     ''bucket'' ''json/2023/11/5/'' = Inr (replicate 1000 example_email)"
proof -
  let ?p = "''json/2023/11/5/''"
  let ?g = "\<lambda>n. str_nat n @ ''.json''"
  let ?objs = "(?p @ CHR ''b'' # ''.json'', fall_back_text) #
               map (\<lambda>n. (?p @ CHR ''a'' # ?g n, example_email_text)) [0..<1000]"
  let ?ks = "sort (map (\<lambda>n. ?p @ CHR ''a'' # ?g n) [0..<1000])"
  let ?env = "bucket_env ?objs [(example_email_text, example_email_json)]"
  have o: "(''json/2023/11/5/b.json'', fall_back_text) # thousand_objects = ?objs"
    unfolding thousand_objects_shape by simp
  have c: "Contents (list_page ?objs ?p) = Some ?ks"
    by (rule page_full) simp
  have "\<forall>k\<in>set ?ks. get_email ?env ''bucket'' k = Inr example_email"
  proof
    fix k
    assume "k \<in> set ?ks"
    then have "get_body ?objs k = Inr example_email_text" by (rule get_body_full)
    then show "get_email ?env ''bucket'' k = Inr example_email" by (rule get_email_example)
  qed
  then have "comprehension (get_email ?env ''bucket'') ?ks =
             Inr (replicate (length ?ks) example_email)"
    by (rule comprehension_constant)
  moreover have "length ?ks = 1000" by simp
  moreover have "s3_list_objects_v2 ?env ''bucket'' ?p = Inr (list_page ?objs ?p)"
    by (simp add: bucket_env_def)
  ultimately have "get_emails ?env ''bucket'' ?p = Inr (replicate 1000 example_email)"
    unfolding get_emails_def using c by (simp only: sum.case option.case)
  then show ?thesis unfolding o by simp
qed

lemma unreadable_neighbour_read_back:
  "get_emails
     (bucket_env [(''json/2023/11/5/b.json'', fall_back_text),
                  (''json/2023/11/5/a.json'', ''not json'')]
        [(fall_back_text, fall_back_json)])
     ''bucket'' ''json/2023/11/5/'' = Inl JSONDecodeError"
  by (simp add: get_emails_def bucket_env_def example_env_def list_page_def has_prefix_def
      get_body_def get_email_def loads_on_def fall_back_text_def)

lemma five_zeros: "replicate 5 CHR ''0'' = ''00000''"
  by (simp add: eval_nat_numeral)

lemma microsecond_offset_document:
  "email_document (writer_env (\<lambda>key d. 0) microsecond_offset_text) microsecond_offset_email =
     microsecond_offset_json"
  by (simp add: five_zeros email_document_def writer_env_def microsecond_offset_email_def example_email_def
      microsecond_offset_json_def isoformat_def example_date_def utcoffset_def format_offset_def
      zero_pad_def str_nat.simps digit_char_def)

lemma microsecond_offset_key:
  "email_key (writer_env (\<lambda>key d. 0) microsecond_offset_text) microsecond_offset_email =
     ''json/2024/1/2/a.json''"
  by (simp add: email_key_def writer_env_def example_parser_env_def microsecond_offset_email_def
      example_email_def example_date_def format_value_def path_str_def path_root_def
      path_parts_def str_nat.simps digit_char_def)

lemma parse_microsecond_offset:
  "parse_isoformat ''2024-01-02T03:04:05+00:00:00.000001'' =
     Some (example_date\<lparr>tzinfo := Timezone 0\<rparr>)"
  by (simp add: parse_isoformat_def take_digits_def digit_of_def parse_offset_def
      valid_fields_def days_in_month_def example_date_def)

lemma microsecond_offset_read_back:
  "get_emails
     (bucket_env [(''json/2024/1/2/a.json'', microsecond_offset_text)]
        [(microsecond_offset_text, microsecond_offset_json)])
     ''bucket'' ''json/2024/1/2/'' =
     Inr [example_email\<lparr>Email.date := example_date\<lparr>tzinfo := Timezone 0\<rparr>\<rparr>]"
  by (simp add: get_emails_def bucket_env_def example_env_def list_page_def has_prefix_def
      get_body_def get_email_def loads_on_def microsecond_offset_json_def fromisoformat_def
      parse_microsecond_offset example_email_def)

text \<open>
  C9, as stated, at four stores. (1) An email received in New York in the repeated hour
  of 5 November 2023 is written to an empty bucket under \<open>json/2023/11/5/b.json\<close>
  with the date \<open>2023-11-05T01:30:00-04:00\<close>; what \<open>get_emails\<close> reads back for
  that day has the fixed offset \<open>-04:00\<close> attached, not the zone, and is not the
  record that was written. (In Python, too, the two timestamps compare unequal: a time
  in a repeated hour never equals a time of another \<open>tzinfo\<close>.) (2) The same email is
  written to a bucket whose prefix of that day already holds the thousand objects
  \<open>a0.json\<close> to \<open>a999.json\<close>: \<open>get_emails\<close> reads the one page
  \<open>list_objects_v2\<close> returns, the thousand records of those objects, and the record
  written is not among them. (3) It is written beside an object of that day that is not
  JSON: \<open>get_emails\<close> raises \<open>JSONDecodeError\<close>. (4) An email whose timestamp has
  an offset of one microsecond is written with the date
  \<open>2024-01-02T03:04:05+00:00:00.000001\<close> and read back as UTC.
\<close>

theorem C9_counterexample:
  "(write_email (writer_env fall_back_zone fall_back_text) [] fall_back_email =
      (Inr (), [(''json/2023/11/5/b.json'', fall_back_text)]) \<and>
    email_document (writer_env fall_back_zone fall_back_text) fall_back_email = fall_back_json \<and>
    get_emails
      (bucket_env [(''json/2023/11/5/b.json'', fall_back_text)]
         [(fall_back_text, fall_back_json)])
      ''bucket'' ''json/2023/11/5/'' =
      Inr [fall_back_email\<lparr>Email.date :=
             fall_back_date\<lparr>tzinfo := Timezone (- 14400000000)\<rparr>\<rparr>] \<and>
    fall_back_email\<lparr>Email.date := fall_back_date\<lparr>tzinfo := Timezone (- 14400000000)\<rparr>\<rparr> \<noteq>
      fall_back_email) \<and>
   (write_email (writer_env fall_back_zone fall_back_text) thousand_objects fall_back_email =
      (Inr (), (''json/2023/11/5/b.json'', fall_back_text) # thousand_objects) \<and>
    get_emails
      (bucket_env ((''json/2023/11/5/b.json'', fall_back_text) # thousand_objects)
         [(example_email_text, example_email_json)])
      ''bucket'' ''json/2023/11/5/'' = Inr (replicate 1000 example_email) \<and>
    Email.id example_email \<noteq> Email.id fall_back_email) \<and>
   (write_email (writer_env fall_back_zone fall_back_text)
      [(''json/2023/11/5/a.json'', ''not json'')] fall_back_email =
      (Inr (), [(''json/2023/11/5/b.json'', fall_back_text),
                (''json/2023/11/5/a.json'', ''not json'')]) \<and>
    get_emails
      (bucket_env [(''json/2023/11/5/b.json'', fall_back_text),
                   (''json/2023/11/5/a.json'', ''not json'')]
         [(fall_back_text, fall_back_json)])
      ''bucket'' ''json/2023/11/5/'' = Inl JSONDecodeError) \<and>
   (write_email (writer_env (\<lambda>key d. 0) microsecond_offset_text) [] microsecond_offset_email =
      (Inr (), [(''json/2024/1/2/a.json'', microsecond_offset_text)]) \<and>
    email_document (writer_env (\<lambda>key d. 0) microsecond_offset_text) microsecond_offset_email =
      microsecond_offset_json \<and>
    get_emails
      (bucket_env [(''json/2024/1/2/a.json'', microsecond_offset_text)]
         [(microsecond_offset_text, microsecond_offset_json)])
      ''bucket'' ''json/2024/1/2/'' =
      Inr [example_email\<lparr>Email.date := example_date\<lparr>tzinfo := Timezone 0\<rparr>\<rparr>] \<and>
    Email.date microsecond_offset_email = example_date\<lparr>tzinfo := Timezone 1\<rparr>)"
proof -
  have w1: "write_email (writer_env fall_back_zone fall_back_text) [] fall_back_email =
      (Inr (), [(''json/2023/11/5/b.json'', fall_back_text)])"
    unfolding write_fall_back by (simp add: put_object_def)
  have n1: "fall_back_email\<lparr>Email.date := fall_back_date\<lparr>tzinfo := Timezone (- 14400000000)\<rparr>\<rparr> \<noteq>
     fall_back_email"
    by (simp add: fall_back_email_def fall_back_date_def)
  have w2: "write_email (writer_env fall_back_zone fall_back_text) thousand_objects
              fall_back_email =
      (Inr (), (''json/2023/11/5/b.json'', fall_back_text) # thousand_objects)"
    unfolding write_fall_back thousand_objects_shape put_beside by simp
  have n2: "Email.id example_email \<noteq> Email.id fall_back_email"
    by (simp add: example_email_def fall_back_email_def)
  have w3: "write_email (writer_env fall_back_zone fall_back_text)
      [(''json/2023/11/5/a.json'', ''not json'')] fall_back_email =
      (Inr (), [(''json/2023/11/5/b.json'', fall_back_text),
                (''json/2023/11/5/a.json'', ''not json'')])"
    unfolding write_fall_back by (simp add: put_object_def)
  have w4: "write_email (writer_env (\<lambda>key d. 0) microsecond_offset_text) []
              microsecond_offset_email =
      (Inr (), [(''json/2024/1/2/a.json'', microsecond_offset_text)])"
    by (simp add: write_email_def Let_def microsecond_offset_key writer_env_put put_object_def)
  have n4: "Email.date microsecond_offset_email = example_date\<lparr>tzinfo := Timezone 1\<rparr>"
    by (simp add: microsecond_offset_email_def)
  show ?thesis
    by (intro conjI w1 fall_back_document repeated_hour_read_back n1 w2 full_page_read_back n2
        w3 unreadable_neighbour_read_back w4 microsecond_offset_document
        microsecond_offset_read_back n4)
qed

text \<open>
  C9, amended: with both functions configured with the same bucket and path (as the
  stack does), for every record whose timestamp has an offset of zero or of at least one
  second (the fields of a \<open>datetime\<close> are always in range and its offset within a
  day): when \<open>write_email\<close> has put the record, the prefix of the record's local date
  held fewer than a thousand objects before the put, each of them is read by
  \<open>get_emails\<close> without an exception, and \<open>json.loads\<close> gives back the document
  \<open>json.dumps\<close> wrote, then \<open>get_emails\<close> for that day returns a list that holds a
  record equal to the original in id, subject, sender and body, whose timestamp has the
  same wall-clock fields and the same UTC offset, attached as a fixed offset with fold
  zero in place of the time zone.
\<close>

theorem C9_round_trip:
  assumes "valid_fields (Email.date r)"
    and "offset_in_range (tzdb penv) (Email.date r)"
    and "write_email penv objs r = (Inr (), objs')"
    and "reads_bucket env objs'"
    and "json_email_path env = parser_json_email_path penv"
    and "yesterday env = Inr target"
    and "year target = year (Email.date r) \<and> month target = month (Email.date r) \<and>
         day target = day (Email.date r)"
    and "json_loads env (parser_json_dumps penv (email_document penv r)) =
         Inr (email_document penv r)"
    and "day_path env \<lparr>path_override = None\<rparr> = Inr path"
    and "length (filter (has_prefix path) (map fst objs)) < 1000"
    and "\<forall>key\<in>set (map fst objs). has_prefix path key \<and> key \<noteq> email_key penv r \<longrightarrow>
           (\<exists>e. get_email env (bucket_name env) key = Inr e)"
  shows "\<exists>es. get_emails env (bucket_name env) path = Inr es \<and>
              r\<lparr>Email.date := fixed_offset (tzdb penv) (Email.date r)\<rparr> \<in> set es"
proof -
  let ?key = "email_key penv r"
  let ?doc = "parser_json_dumps penv (email_document penv r)"
  let ?r' = "r\<lparr>Email.date := fixed_offset (tzdb penv) (Email.date r)\<rparr>"
  have o: "objs' = put_object objs ?key ?doc"
    using assms(3) by (rule write_email_bucket)
  have p: "path = path_str (day_dir (json_email_path env) target) @ ''/''"
    using day_path_yesterday [OF assms(6)] assms(9) by simp
  have d: "day_dir (json_email_path env) target =
           day_dir (parser_json_email_path penv) (Email.date r)"
    using assms(5,7) by (simp add: day_dir_def)
  have k: "?key = path @
           join_with CHR ''/'' (path_parts (format_value penv (Email.id r) @ ''.json''))"
    unfolding p d by (simp add: email_key_under_day)
  have h: "has_prefix path ?key"
    by (subst k) (simp add: has_prefix_def)
  from list_page_put [OF h assms(10), of ?doc]
  obtain ks where ks: "Contents (list_page objs' path) = Some ks" "?key \<in> set ks"
    "set ks \<subseteq> insert ?key {k \<in> fst ` set objs. has_prefix path k \<and> k \<noteq> ?key}"
    unfolding o by blast
  have l: "s3_list_objects_v2 env (bucket_name env) path = Inr (list_page objs' path)"
    using assms(4) by (simp add: reads_bucket_def)
  have b: "s3_get_object env (bucket_name env) ?key = Inr ?doc"
    using assms(4) by (simp add: reads_bucket_def o get_body_put)
  have g: "get_email env (bucket_name env) ?key = Inr ?r'"
    using assms(1,2) b assms(8) by (rule get_email_written)
  have "\<forall>k\<in>set ks. \<exists>e. get_email env (bucket_name env) k = Inr e"
  proof
    fix k
    assume "k \<in> set ks"
    with ks(3) have "k = ?key \<or> (k \<in> set (map fst objs) \<and> has_prefix path k \<and> k \<noteq> ?key)"
      by auto
    then show "\<exists>e. get_email env (bucket_name env) k = Inr e"
      using g assms(11) by auto
  qed
  from comprehension_total [OF this]
  obtain es where es: "comprehension (get_email env (bucket_name env)) ks = Inr es" by blast
  from comprehension_member [OF es ks(2) g] have "?r' \<in> set es" .
  moreover from es l ks(1) have "get_emails env (bucket_name env) path = Inr es"
    by (simp add: get_emails_def)
  ultimately show ?thesis by blast
qed

text \<open>
  The example email, written beside one object of its day, is read back with the offset
  \<open>+09:00\<close> of its zone.
\<close>

theorem C9_round_trip_witness:
  "write_email (writer_env (\<lambda>key d. 32400000000) example_email_text)
     [(''json/2024/1/2/0.json'', example_email_text)] tokyo_email =
     (Inr (), [(''json/2024/1/2/a.json'', example_email_text),
               (''json/2024/1/2/0.json'', example_email_text)]) \<and>
   (\<exists>es. get_emails
           (bucket_env [(''json/2024/1/2/a.json'', example_email_text),
                        (''json/2024/1/2/0.json'', example_email_text)]
              [(example_email_text, example_email_json)])
           ''bucket'' ''json/2024/1/2/'' = Inr es \<and>
         example_email \<in> set es)"
proof -
  let ?penv = "writer_env (\<lambda>key d. 32400000000) example_email_text"
  let ?objs = "[(''json/2024/1/2/0.json'', example_email_text)]"
  let ?objs' = "[(''json/2024/1/2/a.json'', example_email_text),
                 (''json/2024/1/2/0.json'', example_email_text)]"
  let ?env = "bucket_env ?objs' [(example_email_text, example_email_json)]"
  let ?target = "\<lparr>year = 2024, month = 1, day = 2, hour = 9, minute = 0, second = 0,
                   microsecond = 0, tzinfo = ZoneInfo ''Asia/Tokyo'', fold = 0\<rparr>"
  have h1: "valid_fields (Email.date tokyo_email)"
    by (simp add: tokyo_email_def example_date_def valid_fields_def days_in_month_def)
  have h2: "offset_in_range (tzdb ?penv) (Email.date tokyo_email)"
    by (simp add: offset_in_range_def utcoffset_def writer_env_put tokyo_email_def
        example_date_def)
  have h3: "write_email ?penv ?objs tokyo_email = (Inr (), ?objs')"
    by (simp add: write_email_def Let_def tokyo_key writer_env_put put_object_def)
  have h4: "reads_bucket ?env ?objs'" by (rule bucket_env_reads)
  have h5: "json_email_path ?env = parser_json_email_path ?penv"
    by (simp add: bucket_env_fields writer_env_put)
  have h6: "yesterday ?env = Inr ?target" by (rule bucket_env_fields)
  have h7: "year ?target = year (Email.date tokyo_email) \<and>
            month ?target = month (Email.date tokyo_email) \<and>
            day ?target = day (Email.date tokyo_email)"
    by (simp add: tokyo_email_def example_date_def)
  have h8: "json_loads ?env (parser_json_dumps ?penv (email_document ?penv tokyo_email)) =
            Inr (email_document ?penv tokyo_email)"
    by (simp add: tokyo_document bucket_env_fields writer_env_put loads_on_def)
  have h9: "day_path ?env \<lparr>path_override = None\<rparr> = Inr ''json/2024/1/2/''"
    by (rule bucket_env_fields)
  have h10: "length (filter (has_prefix ''json/2024/1/2/'') (map fst ?objs)) < 1000"
    by simp
  have g: "get_email ?env ''bucket'' ''json/2024/1/2/0.json'' = Inr example_email"
    by (rule get_email_example) (simp add: get_body_def)
  have h11: "\<forall>key\<in>set (map fst ?objs).
               has_prefix ''json/2024/1/2/'' key \<and> key \<noteq> email_key ?penv tokyo_email \<longrightarrow>
               (\<exists>e. get_email ?env (bucket_name ?env) key = Inr e)"
    using g by (simp add: bucket_env_fields)
  from C9_round_trip [OF h1 h2 h3 h4 h5 h6 h7 h8 h9 h10 h11] h3 tokyo_fixed
  show ?thesis by (simp add: bucket_env_fields writer_env_put)
qed

end
